theory Spec2Isabelle
  imports Complex_Main
begin

section \<open>Basic values: strings, timestamps, exceptions\<close>

text \<open>
  Python's \<^verbatim>\<open>sub in s\<close> on strings: \<open>sub\<close> occurs in \<open>s\<close> as a contiguous
  run of characters.
\<close>

fun is_prefix :: "string \<Rightarrow> string \<Rightarrow> bool" where
  "is_prefix [] s = True"
| "is_prefix (a # p) [] = False"
| "is_prefix (a # p) (b # s) = (a = b \<and> is_prefix p s)"

fun str_contains :: "string \<Rightarrow> string \<Rightarrow> bool" where
  "str_contains sub [] = (sub = [])"
| "str_contains sub (c # s) = (is_prefix sub (c # s) \<or> str_contains sub s)"

text \<open>Decimal printing of Python ints, as \<^verbatim>\<open>str(n)\<close> and f-strings do.\<close>

definition digit_char :: "nat \<Rightarrow> char" where
  "digit_char d = char_of (48 + d)"

function str_nat :: "nat \<Rightarrow> string" where
  "str_nat n = (if n < 10 then [digit_char n] else str_nat (n div 10) @ [digit_char (n mod 10)])"
  by pat_completeness auto
termination
  by (relation "measure (\<lambda>n. n)") auto

declare str_nat.simps [simp del]

definition str_int :: "int \<Rightarrow> string" where
  "str_int i = (if i < 0 then CHR ''-'' # str_nat (nat (- i)) else str_nat (nat i))"

text \<open>
  A \<^verbatim>\<open>datetime\<close> value with its calendar fields. \<^verbatim>\<open>.date()\<close> keeps year, month
  and day; two dates are equal when the three fields are. Time zones are left out: a
  stored timestamp and the clock are read in the same zone.
\<close>

record datetime =
  year :: nat
  month :: nat
  day :: nat
  hour :: nat
  minute :: nat
  second :: nat
  microsecond :: nat

type_synonym date = "nat \<times> nat \<times> nat"

definition date_of :: "datetime \<Rightarrow> date" where
  "date_of t = (year t, month t, day t)"

definition zero_pad :: "nat \<Rightarrow> string \<Rightarrow> string" where
  "zero_pad w s = replicate (w - length s) CHR ''0'' @ s"

text \<open>
  \<^verbatim>\<open>strftime("%Y-%m-%d")\<close>: four digits of year, two of month, two of day (the padding
  of a year below 1000 depends on the platform; it is zero-padded here).
\<close>

definition strftime_ymd :: "date \<Rightarrow> string" where
  "strftime_ymd d = (case d of (y, m, dd) \<Rightarrow>
     zero_pad 4 (str_nat y) @ ''-'' @ zero_pad 2 (str_nat m) @ ''-'' @ zero_pad 2 (str_nat dd))"

text \<open>
  Exceptions are values. \<open>HTTPException status detail\<close> is FastAPI's;
  \<open>AttributeError\<close> is the Python built-in that the handlers below can raise themselves;
  \<open>DBAPIError\<close> is what the session raises when the database driver refuses a
  statement.
  \<open>exn_str\<close> is \<^verbatim>\<open>str(e)\<close>: for an \<^verbatim>\<open>HTTPException\<close> the status, a colon and the
  detail, as Starlette prints it. The statements below that concern a status do not
  depend on this text.
\<close>

datatype exn =
  HTTPException nat string
| AttributeError string
| DBAPIError string

fun exn_str :: "exn \<Rightarrow> string" where
  "exn_str (HTTPException st detail) = str_nat st @ '': '' @ detail"
| "exn_str (AttributeError msg) = msg"
| "exn_str (DBAPIError msg) = msg"

fun status_code :: "exn \<Rightarrow> nat" where
  "status_code (HTTPException st detail) = st"
| "status_code (AttributeError msg) = 0"
| "status_code (DBAPIError msg) = 0"

section \<open>The relational model of \<^verbatim>\<open>app/db.py\<close>\<close>

datatype DocumentType =
  EXTENSION | CRAWLED_URL | FILE | DOC_SLACK_CONNECTOR | DOC_NOTION_CONNECTOR
| YOUTUBE_VIDEO | DOC_GITHUB_CONNECTOR

datatype SearchSourceConnectorType =
  SERPER_API | TAVILY_API | SLACK_CONNECTOR | NOTION_CONNECTOR | GITHUB_CONNECTOR

datatype ChatType = GENERAL | DEEP | DEEPER | DEEPEST

type_synonym uuid = nat

type_synonym vector = "real list"

record Chat =
  chat_id :: int
  chat_created_at :: datetime
  chat_type :: ChatType
  chat_title :: string
  chat_search_space_id :: int

record Document =
  doc_id :: int
  doc_created_at :: datetime
  doc_title :: string
  document_type :: DocumentType
  document_metadata :: "string option"
  doc_content :: string
  doc_embedding :: "vector option"
  doc_search_space_id :: int

record Chunk =
  chunk_id :: int
  chunk_created_at :: datetime
  chunk_content :: string
  chunk_embedding :: "vector option"
  chunk_document_id :: int

record Podcast =
  podcast_id :: int
  podcast_created_at :: datetime
  podcast_title :: string
  is_generated :: bool
  podcast_content :: string
  file_location :: string
  podcast_search_space_id :: int

record SearchSpace =
  space_id :: int
  space_created_at :: datetime
  space_name :: string
  space_description :: "string option"
  space_user_id :: uuid

record SearchSourceConnector =
  conn_id :: int
  conn_created_at :: datetime
  conn_name :: string
  connector_type :: SearchSourceConnectorType
  is_indexable :: bool
  last_indexed_at :: "datetime option"
  conn_config :: string
  conn_user_id :: uuid

text \<open>
  The database behind a session: one list of rows per table, in storage order. The
  session is taken to be reliable: \<^verbatim>\<open>execute\<close> and \<^verbatim>\<open>commit\<close> raise only what
  the declared constraints of \<^verbatim>\<open>db.py\<close> make them raise.
\<close>

record db =
  chats :: "Chat list"
  documents :: "Document list"
  chunks :: "Chunk list"
  podcasts :: "Podcast list"
  searchspaces :: "SearchSpace list"
  connectors :: "SearchSourceConnector list"

section \<open>Background indexing runs and the checkpoint\<close>

text \<open>
  \<^verbatim>\<open>update_connector_last_indexed\<close>: the first row with the given id gets
  \<^verbatim>\<open>last_indexed_at = datetime.now()\<close>; with no such row nothing is written.
\<close>

fun set_last_indexed :: "int \<Rightarrow> datetime \<Rightarrow> SearchSourceConnector list \<Rightarrow> SearchSourceConnector list" where
  "set_last_indexed cid t [] = []"
| "set_last_indexed cid t (c # cs) =
     (if conn_id c = cid then c\<lparr>last_indexed_at := Some t\<rparr> # cs
      else c # set_last_indexed cid t cs)"

text \<open>
  \<^verbatim>\<open>select(SearchSourceConnector).filter(SearchSourceConnector.id == connector_id)\<close>
  followed by \<^verbatim>\<open>.scalars().first()\<close>.
\<close>

definition connector_by_id :: "int \<Rightarrow> SearchSourceConnector list \<Rightarrow> SearchSourceConnector option" where
  "connector_by_id connector_id cs = find (\<lambda>c. conn_id c = connector_id) cs"

definition update_connector_last_indexed :: "db \<Rightarrow> datetime \<Rightarrow> int \<Rightarrow> db" where
  "update_connector_last_indexed s now connector_id =
     (case connector_by_id connector_id (connectors s) of
        None \<Rightarrow> s
      | Some connector \<Rightarrow> s\<lparr>connectors := set_last_indexed connector_id now (connectors s)\<rparr>)"

text \<open>
  The indexing functions \<^verbatim>\<open>index_slack_messages\<close> and \<^verbatim>\<open>index_notion_pages\<close> of
  \<^verbatim>\<open>app.tasks.connectors_indexing_tasks\<close> are parameters of the model: called with the
  database, the clock, the connector id, the search space id and the
  \<^verbatim>\<open>update_last_indexed\<close> flag, such a function either raises or returns
  \<^verbatim>\<open>(documents_indexed, error_or_warning)\<close>, and leaves a database and a clock behind
  (the call is awaited, so time passes).
\<close>

type_synonym indexer =
  "db \<Rightarrow> datetime \<Rightarrow> int \<Rightarrow> int \<Rightarrow> bool \<Rightarrow> (exn + int \<times> string option) \<times> db \<times> datetime"

text \<open>The test of lines 381 and 412.\<close>

definition indexing_successful :: "int \<Rightarrow> string option \<Rightarrow> bool" where
  "indexing_successful documents_indexed error_or_warning =
     (documents_indexed > 0 \<and>
      (case error_or_warning of None \<Rightarrow> True | Some m \<Rightarrow> str_contains ''Indexed'' m))"

definition run_slack_indexing :: "indexer \<Rightarrow> db \<Rightarrow> datetime \<Rightarrow> int \<Rightarrow> int \<Rightarrow> db \<times> datetime" where
  "run_slack_indexing index_slack_messages s now connector_id search_space_id =
     (case index_slack_messages s now connector_id search_space_id False of
        (Inl e, s1, now1) \<Rightarrow> (s1, now1)
      | (Inr (documents_indexed, error_or_warning), s1, now1) \<Rightarrow>
          if indexing_successful documents_indexed error_or_warning
          then (update_connector_last_indexed s1 now1 connector_id, now1)
          else (s1, now1))"

definition run_notion_indexing :: "indexer \<Rightarrow> db \<Rightarrow> datetime \<Rightarrow> int \<Rightarrow> int \<Rightarrow> db \<times> datetime" where
  "run_notion_indexing index_notion_pages s now connector_id search_space_id =
     (case index_notion_pages s now connector_id search_space_id False of
        (Inl e, s1, now1) \<Rightarrow> (s1, now1)
      | (Inr (documents_indexed, error_or_warning), s1, now1) \<Rightarrow>
          if indexing_successful documents_indexed error_or_warning
          then (update_connector_last_indexed s1 now1 connector_id, now1)
          else (s1, now1))"

text \<open>What a run reports: nothing when it raised.\<close>

fun reported_success :: "(exn + int \<times> string option) \<Rightarrow> bool" where
  "reported_success (Inl e) = False"
| "reported_success (Inr (n, m)) = indexing_successful n m"

section \<open>Connector routes\<close>

text \<open>
  Modelled from the spec: \<^verbatim>\<open>check_ownership\<close> of \<^verbatim>\<open>app.utils.check_ownership\<close>,
  which is not among the sources. Every entity is exclusively owned by one user and the
  ownership check is the gate in front of each route: the row with the given id that
  belongs to the caller is returned, and its absence is an \<^verbatim>\<open>HTTPException\<close> with the
  status 404 that the document routes use for their own, inlined ownership query.
\<close>

definition check_ownership :: "'r list \<Rightarrow> ('r \<Rightarrow> int) \<Rightarrow> ('r \<Rightarrow> uuid) \<Rightarrow> int \<Rightarrow> uuid \<Rightarrow> exn + 'r" where
  "check_ownership rows get_id get_user item_id user =
     (case find (\<lambda>r. get_id r = item_id \<and> get_user r = user) rows of
        None \<Rightarrow> Inl (HTTPException 404 ''Item not found or not owned by the user'')
      | Some r \<Rightarrow> Inr r)"

text \<open>
  Modelled from the spec: the request schemas \<^verbatim>\<open>SearchSourceConnectorCreate\<close> and
  \<^verbatim>\<open>SearchSourceConnectorUpdate\<close> of \<^verbatim>\<open>app.schemas.search_source_connector\<close>, which is
  not among the sources. They carry the attributes of a connector: name, connector type,
  opaque config, the \<^verbatim>\<open>is_indexable\<close> flag and the nullable checkpoint, the only field
  a request may leave unset (\<open>None\<close> here; \<open>Some v\<close> is a request that sets it to \<open>v\<close>).
\<close>

record SearchSourceConnectorBase =
  req_name :: string
  req_connector_type :: SearchSourceConnectorType
  req_is_indexable :: bool
  req_last_indexed_at :: "datetime option option"
  req_config :: string

text \<open>
  The text of a member of the enumeration inside an f-string: its value. (From Python 3.11
  on the text is the qualified member name; only the details of two error messages
  contain it.)
\<close>

fun type_name :: "SearchSourceConnectorType \<Rightarrow> string" where
  "type_name SERPER_API = ''SERPER_API''"
| "type_name TAVILY_API = ''TAVILY_API''"
| "type_name SLACK_CONNECTOR = ''SLACK_CONNECTOR''"
| "type_name NOTION_CONNECTOR = ''NOTION_CONNECTOR''"
| "type_name GITHUB_CONNECTOR = ''GITHUB_CONNECTOR''"

text \<open>The primary key of a new row: an id no stored row has.\<close>

definition next_id :: "int list \<Rightarrow> int" where
  "next_id ids = fold max ids 0 + 1"

text \<open>
  \<^verbatim>\<open>connector_type\<close> is declared \<^verbatim>\<open>unique=True\<close> in \<^verbatim>\<open>db.py\<close>: a commit that would
  store a second row of a type makes the session raise \<^verbatim>\<open>IntegrityError\<close>, which both
  writing routes turn into status 409 after a rollback.
\<close>

definition integrity_detail :: string where
  "integrity_detail = ''Integrity error: A connector with this type already exists. duplicate key value violates unique constraint''"

definition already_exists_detail :: "SearchSourceConnectorType \<Rightarrow> string" where
  "already_exists_detail t = ''A connector with type '' @ type_name t @
     '' already exists. Each user can have only one connector of each type.''"

definition create_search_source_connector ::
  "SearchSourceConnectorBase \<Rightarrow> db \<Rightarrow> uuid \<Rightarrow> datetime \<Rightarrow> (exn + SearchSourceConnector) \<times> db" where
  "create_search_source_connector connector s user now =
     (case find (\<lambda>c. conn_user_id c = user \<and> connector_type c = req_connector_type connector)
             (connectors s) of
        Some existing_connector \<Rightarrow>
          (Inl (HTTPException 409 (already_exists_detail (req_connector_type connector))), s)
      | None \<Rightarrow>
          let db_connector = \<lparr>conn_id = next_id (map conn_id (connectors s)),
                 conn_created_at = now,
                 conn_name = req_name connector,
                 connector_type = req_connector_type connector,
                 is_indexable = req_is_indexable connector,
                 last_indexed_at = (case req_last_indexed_at connector of None \<Rightarrow> None | Some v \<Rightarrow> v),
                 conn_config = req_config connector,
                 conn_user_id = user\<rparr>
          in if list_ex (\<lambda>c. connector_type c = connector_type db_connector) (connectors s)
             then (Inl (HTTPException 409 integrity_detail), s)
             else (Inr db_connector, s\<lparr>connectors := connectors s @ [db_connector]\<rparr>))"

text \<open>
  The \<^verbatim>\<open>setattr\<close> loop over \<^verbatim>\<open>model_dump(exclude_unset=True)\<close>: every field the
  request set is written to the row.
\<close>

definition apply_update :: "SearchSourceConnectorBase \<Rightarrow> SearchSourceConnector \<Rightarrow> SearchSourceConnector" where
  "apply_update u c =
     c\<lparr>conn_name := req_name u,
       connector_type := req_connector_type u,
       is_indexable := req_is_indexable u,
       last_indexed_at := (case req_last_indexed_at u of None \<Rightarrow> last_indexed_at c | Some v \<Rightarrow> v),
       conn_config := req_config u\<rparr>"

fun update_first :: "('a \<Rightarrow> bool) \<Rightarrow> ('a \<Rightarrow> 'a) \<Rightarrow> 'a list \<Rightarrow> 'a list" where
  "update_first P f [] = []"
| "update_first P f (x # xs) = (if P x then f x # xs else x # update_first P f xs)"

fun others_of :: "('a \<Rightarrow> bool) \<Rightarrow> 'a list \<Rightarrow> 'a list" where
  "others_of P [] = []"
| "others_of P (x # xs) = (if P x then xs else x # others_of P xs)"

definition update_search_source_connector ::
  "int \<Rightarrow> SearchSourceConnectorBase \<Rightarrow> db \<Rightarrow> uuid \<Rightarrow> (exn + SearchSourceConnector) \<times> db" where
  "update_search_source_connector connector_id connector_update s user =
     (case check_ownership (connectors s) conn_id conn_user_id connector_id user of
        Inl e \<Rightarrow> (Inl e, s)
      | Inr db_connector \<Rightarrow>
          if req_connector_type connector_update \<noteq> connector_type db_connector \<and>
             find (\<lambda>c. conn_user_id c = user \<and>
                        connector_type c = req_connector_type connector_update \<and>
                        conn_id c \<noteq> connector_id) (connectors s) \<noteq> None
          then (Inl (HTTPException 409 (already_exists_detail (req_connector_type connector_update))), s)
          else
            let mine = (\<lambda>c. conn_id c = connector_id \<and> conn_user_id c = user);
                updated = apply_update connector_update db_connector
            in if list_ex (\<lambda>c. connector_type c = connector_type updated) (others_of mine (connectors s))
               then (Inl (HTTPException 409 integrity_detail), s)
               else (Inr updated,
                     s\<lparr>connectors := update_first mine (apply_update connector_update) (connectors s)\<rparr>))"

datatype json = JBool bool | JStr string | JConnectorType SearchSourceConnectorType

type_synonym response = "(string \<times> json) list"

definition delete_search_source_connector :: "int \<Rightarrow> db \<Rightarrow> uuid \<Rightarrow> (exn + response) \<times> db" where
  "delete_search_source_connector connector_id s user =
     (case check_ownership (connectors s) conn_id conn_user_id connector_id user of
        Inl e \<Rightarrow> (Inl e, s)
      | Inr db_connector \<Rightarrow>
          (Inr [(''message'', JStr ''Search source connector deleted successfully'')],
           s\<lparr>connectors := others_of (\<lambda>c. conn_id c = connector_id \<and> conn_user_id c = user)
                                 (connectors s)\<rparr>))"

subsection \<open>The indexing trigger\<close>

text \<open>
  A FastAPI \<^verbatim>\<open>BackgroundTasks\<close> object is the list of the tasks added to it, in order;
  the parameter of the route defaults to \<^verbatim>\<open>None\<close>. A task is the function to call with
  its arguments (the session apart).
\<close>

datatype task =
  run_slack_indexing_task int int
| run_notion_indexing_task int int
| add_extension_received_document_task string int
| add_crawled_url_document_task string int

text \<open>
  The module imports the class with \<^verbatim>\<open>from datetime import datetime\<close>, so the
  expression \<^verbatim>\<open>datetime.timedelta\<close> of lines 251 and 288 looks the attribute up on the
  class \<^verbatim>\<open>datetime.datetime\<close>, which has none of that name: Python raises
  \<^verbatim>\<open>AttributeError\<close> before any date is computed.
\<close>

definition no_timedelta :: exn where
  "no_timedelta = AttributeError
     (''type object '' @ [CHR 0x27] @ ''datetime.datetime'' @ [CHR 0x27] @
      '' has no attribute '' @ [CHR 0x27] @ ''timedelta'' @ [CHR 0x27])"

text \<open>Lines 244 to 253, and again 281 to 290: the start of the window to report.\<close>

definition start_date_of :: "SearchSourceConnector \<Rightarrow> datetime \<Rightarrow> exn + string" where
  "start_date_of connector now =
     (case last_indexed_at connector of
        None \<Rightarrow> Inr ''365 days ago''
      | Some indexed \<Rightarrow>
          let today = date_of now
          in if date_of indexed = today then Inl no_timedelta
             else Inr (strftime_ymd (date_of indexed)))"

definition index_connector_content_try ::
  "int \<Rightarrow> int \<Rightarrow> db \<Rightarrow> uuid \<Rightarrow> datetime \<Rightarrow> task list option \<Rightarrow> exn + response \<times> task list option" where
  "index_connector_content_try connector_id search_space_id s user now background_tasks =
     (case check_ownership (connectors s) conn_id conn_user_id connector_id user of
        Inl e \<Rightarrow> Inl e
      | Inr connector \<Rightarrow>
     (case check_ownership (searchspaces s) space_id space_user_id search_space_id user of
        Inl e \<Rightarrow> Inl e
      | Inr search_space \<Rightarrow>
          if connector_type connector = SLACK_CONNECTOR then
            (case start_date_of connector now of
               Inl e \<Rightarrow> Inl e
             | Inr start_date \<Rightarrow>
                 (case background_tasks of
                    Some tasks \<Rightarrow>
                      Inr ([(''success'', JBool True),
                            (''message'', JStr ''Slack indexing started in the background''),
                            (''connector_type'', JConnectorType (connector_type connector)),
                            (''search_space'', JStr (space_name search_space)),
                            (''indexing_from'', JStr start_date),
                            (''indexing_to'', JStr (strftime_ymd (date_of now)))],
                           Some (tasks @ [run_slack_indexing_task connector_id search_space_id]))
                  | None \<Rightarrow>
                      Inr ([(''success'', JBool False),
                            (''message'', JStr ''Background tasks not available''),
                            (''connector_type'', JConnectorType (connector_type connector))],
                           None)))
          else if connector_type connector = NOTION_CONNECTOR then
            (case start_date_of connector now of
               Inl e \<Rightarrow> Inl e
             | Inr start_date \<Rightarrow>
                 (case background_tasks of
                    Some tasks \<Rightarrow>
                      Inr ([(''success'', JBool True),
                            (''message'', JStr ''Notion indexing started in the background''),
                            (''connector_type'', JConnectorType (connector_type connector)),
                            (''search_space'', JStr (space_name search_space)),
                            (''indexing_from'', JStr start_date),
                            (''indexing_to'', JStr (strftime_ymd (date_of now)))],
                           Some (tasks @ [run_notion_indexing_task connector_id search_space_id]))
                  | None \<Rightarrow>
                      Inr ([(''success'', JBool False),
                            (''message'', JStr ''Background tasks not available''),
                            (''connector_type'', JConnectorType (connector_type connector))],
                           None)))
          else Inl (HTTPException 400
                 (''Indexing not supported for connector type: '' @ type_name (connector_type connector)))))"

text \<open>
  The \<^verbatim>\<open>try\<close> of the route: an \<^verbatim>\<open>HTTPException\<close> passes, anything else becomes
  status 500. The route writes nothing to the database.
\<close>

definition index_connector_content ::
  "int \<Rightarrow> int \<Rightarrow> db \<Rightarrow> uuid \<Rightarrow> datetime \<Rightarrow> task list option \<Rightarrow> (exn + response) \<times> db \<times> task list option" where
  "index_connector_content connector_id search_space_id s user now background_tasks =
     (case index_connector_content_try connector_id search_space_id s user now background_tasks of
        Inl (HTTPException st detail) \<Rightarrow> (Inl (HTTPException st detail), s, background_tasks)
      | Inl e \<Rightarrow> (Inl (HTTPException 500 (''Failed to start indexing: '' @ exn_str e)), s, background_tasks)
      | Inr (resp, tasks) \<Rightarrow> (Inr resp, s, tasks))"

section \<open>Document routes\<close>

text \<open>
  Modelled from the spec: the request schema \<^verbatim>\<open>DocumentsCreate\<close> of
  \<^verbatim>\<open>app.schemas.documents\<close>, which is not among the sources: a typed
  \<^verbatim>\<open>document_type\<close>, the items to ingest and the owning search space.
\<close>

record DocumentsCreate =
  req_document_type :: DocumentType
  req_content :: "string list"
  req_search_space_id :: int

definition create_documents_try ::
  "DocumentsCreate \<Rightarrow> db \<Rightarrow> uuid \<Rightarrow> task list \<Rightarrow> exn + response \<times> task list" where
  "create_documents_try request s user fastapi_background_tasks =
     (case check_ownership (searchspaces s) space_id space_user_id (req_search_space_id request) user of
        Inl e \<Rightarrow> Inl e
      | Inr search_space \<Rightarrow>
          if req_document_type request = EXTENSION then
            Inr ([(''message'', JStr ''Documents processed successfully'')],
                 fastapi_background_tasks @
                   map (\<lambda>individual_document.
                          add_extension_received_document_task individual_document
                            (req_search_space_id request))
                     (req_content request))
          else if req_document_type request = CRAWLED_URL then
            Inr ([(''message'', JStr ''Documents processed successfully'')],
                 fastapi_background_tasks @
                   map (\<lambda>url. add_crawled_url_document_task url (req_search_space_id request))
                     (req_content request))
          else Inl (HTTPException 400 ''Invalid document type''))"

definition create_documents ::
  "DocumentsCreate \<Rightarrow> db \<Rightarrow> uuid \<Rightarrow> task list \<Rightarrow> (exn + response) \<times> db \<times> task list" where
  "create_documents request s user fastapi_background_tasks =
     (case create_documents_try request s user fastapi_background_tasks of
        Inl (HTTPException st detail) \<Rightarrow> (Inl (HTTPException st detail), s, fastapi_background_tasks)
      | Inl e \<Rightarrow> (Inl (HTTPException 500 (''Failed to process documents: '' @ exn_str e)), s,
                  fastapi_background_tasks)
      | Inr (resp, tasks) \<Rightarrow> (Inr resp, s, tasks))"

text \<open>
  The key \<^verbatim>\<open>id\<close> of \<^verbatim>\<open>BaseModel\<close> is an \<^verbatim>\<open>Integer\<close> column, a 32-bit integer of
  the database, while the path parameter \<^verbatim>\<open>document_id\<close> is any Python int. A query
  that compares the column with a value outside the 32-bit range is refused by the driver
  before any row is looked up, and the session raises.
\<close>

definition in_int32 :: "int \<Rightarrow> bool" where
  "in_int32 i = (- 2147483648 \<le> i \<and> i \<le> 2147483647)"

definition out_of_int32 :: "int \<Rightarrow> exn" where
  "out_of_int32 i = DBAPIError
     (''invalid input for query argument: '' @ str_int i @ '' (value out of int32 range)'')"

text \<open>
  The query of the three single-document routes:
  \<^verbatim>\<open>select(Document).join(SearchSpace).filter(Document.id == document_id,
  SearchSpace.user_id == user.id)\<close>, then \<^verbatim>\<open>.scalars().first()\<close>.
\<close>

definition owned_document :: "db \<Rightarrow> int \<Rightarrow> uuid \<Rightarrow> exn + Document option" where
  "owned_document s document_id user =
     (if \<not> in_int32 document_id then Inl (out_of_int32 document_id)
      else Inr (find (\<lambda>d. doc_id d = document_id \<and>
                        list_ex (\<lambda>sp. space_id sp = doc_search_space_id d \<and> space_user_id sp = user)
                          (searchspaces s))
                  (documents s)))"

record DocumentRead =
  read_id :: int
  read_title :: string
  read_document_type :: DocumentType
  read_document_metadata :: "string option"
  read_content :: string
  read_created_at :: datetime
  read_search_space_id :: int

definition to_DocumentRead :: "Document \<Rightarrow> DocumentRead" where
  "to_DocumentRead d = \<lparr>read_id = doc_id d, read_title = doc_title d,
     read_document_type = document_type d, read_document_metadata = document_metadata d,
     read_content = doc_content d, read_created_at = doc_created_at d,
     read_search_space_id = doc_search_space_id d\<rparr>"

definition document_not_found :: "int \<Rightarrow> exn" where
  "document_not_found document_id =
     HTTPException 404 (''Document with id '' @ str_int document_id @ '' not found'')"

text \<open>
  \<^verbatim>\<open>read_document\<close> has a single handler, \<^verbatim>\<open>except Exception\<close>:
  \<^verbatim>\<open>HTTPException\<close> is an \<^verbatim>\<open>Exception\<close>, so the 404 raised inside the
  \<^verbatim>\<open>try\<close> is caught there and reraised as status 500.
\<close>

definition read_document_try :: "int \<Rightarrow> db \<Rightarrow> uuid \<Rightarrow> exn + DocumentRead" where
  "read_document_try document_id s user =
     (case owned_document s document_id user of
        Inl e \<Rightarrow> Inl e
      | Inr None \<Rightarrow> Inl (document_not_found document_id)
      | Inr (Some document) \<Rightarrow> Inr (to_DocumentRead document))"

definition read_document :: "int \<Rightarrow> db \<Rightarrow> uuid \<Rightarrow> exn + DocumentRead" where
  "read_document document_id s user =
     (case read_document_try document_id s user of
        Inl e \<Rightarrow> Inl (HTTPException 500 (''Failed to fetch document: '' @ exn_str e))
      | Inr r \<Rightarrow> Inr r)"

text \<open>
  What \<^verbatim>\<open>db.py\<close> declares for a row of \<^verbatim>\<open>documents\<close> and of \<^verbatim>\<open>chunks\<close>, and the
  database checks when a commit writes the row. The column \<^verbatim>\<open>embedding\<close> of both
  tables is \<^verbatim>\<open>Vector(config.embedding_model_instance.dimension)\<close>, nullable: a vector of
  another length is refused. \<^verbatim>\<open>documents.search_space_id\<close> is a foreign key to
  \<^verbatim>\<open>searchspaces.id\<close>. The configured dimension is the parameter \<open>dimension\<close>.
\<close>

definition has_dimension :: "nat \<Rightarrow> vector option \<Rightarrow> bool" where
  "has_dimension dimension e = (case e of None \<Rightarrow> True | Some v \<Rightarrow> length v = dimension)"

definition document_accepted :: "nat \<Rightarrow> db \<Rightarrow> Document \<Rightarrow> bool" where
  "document_accepted dimension s d =
     (has_dimension dimension (doc_embedding d) \<and>
      list_ex (\<lambda>sp. space_id sp = doc_search_space_id d) (searchspaces s))"

definition chunk_accepted :: "nat \<Rightarrow> Chunk \<Rightarrow> bool" where
  "chunk_accepted dimension c = has_dimension dimension (chunk_embedding c)"

definition row_refused :: exn where
  "row_refused = DBAPIError ''the row violates a constraint of its table''"

text \<open>
  \<^verbatim>\<open>update_document\<close>: the effect of the \<^verbatim>\<open>setattr\<close> loop over the fields that the
  request set is the parameter \<open>document_update\<close> (the schema \<^verbatim>\<open>DocumentUpdate\<close> is
  not among the sources). The commit writes the row that the query found, as changed;
  when the database refuses it, the session raises, and the generic handler rolls back and
  answers 500.
\<close>

definition update_document_try ::
  "nat \<Rightarrow> int \<Rightarrow> (Document \<Rightarrow> Document) \<Rightarrow> db \<Rightarrow> uuid \<Rightarrow> exn + DocumentRead \<times> db" where
  "update_document_try dimension document_id document_update s user =
     (case owned_document s document_id user of
        Inl e \<Rightarrow> Inl e
      | Inr None \<Rightarrow> Inl (document_not_found document_id)
      | Inr (Some db_document) \<Rightarrow>
          if \<not> document_accepted dimension s (document_update db_document) then Inl row_refused
          else
            Inr (to_DocumentRead (document_update db_document),
                 s\<lparr>documents := update_first (\<lambda>d. d = db_document) document_update
                                   (documents s)\<rparr>))"

definition update_document ::
  "nat \<Rightarrow> int \<Rightarrow> (Document \<Rightarrow> Document) \<Rightarrow> db \<Rightarrow> uuid \<Rightarrow> (exn + DocumentRead) \<times> db" where
  "update_document dimension document_id document_update s user =
     (case update_document_try dimension document_id document_update s user of
        Inl (HTTPException st detail) \<Rightarrow> (Inl (HTTPException st detail), s)
      | Inl e \<Rightarrow> (Inl (HTTPException 500 (''Failed to update document: '' @ exn_str e)), s)
      | Inr (r, s') \<Rightarrow> (Inr r, s'))"

text \<open>
  \<^verbatim>\<open>session.delete(document)\<close>: the row goes, and with it its chunks
  (\<^verbatim>\<open>Document.chunks\<close> is declared with \<^verbatim>\<open>cascade="all, delete-orphan"\<close>, the foreign
  key \<^verbatim>\<open>chunks.document_id\<close> with \<^verbatim>\<open>ondelete='CASCADE'\<close>).
\<close>

definition delete_document_row :: "Document \<Rightarrow> db \<Rightarrow> db" where
  "delete_document_row d s =
     s\<lparr>documents := filter (\<lambda>x. doc_id x \<noteq> doc_id d) (documents s),
       chunks := filter (\<lambda>c. chunk_document_id c \<noteq> doc_id d) (chunks s)\<rparr>"

definition delete_document_try :: "int \<Rightarrow> db \<Rightarrow> uuid \<Rightarrow> exn + response \<times> db" where
  "delete_document_try document_id s user =
     (case owned_document s document_id user of
        Inl e \<Rightarrow> Inl e
      | Inr None \<Rightarrow> Inl (document_not_found document_id)
      | Inr (Some document) \<Rightarrow>
          Inr ([(''message'', JStr ''Document deleted successfully'')], delete_document_row document s))"

definition delete_document :: "int \<Rightarrow> db \<Rightarrow> uuid \<Rightarrow> (exn + response) \<times> db" where
  "delete_document document_id s user =
     (case delete_document_try document_id s user of
        Inl (HTTPException st detail) \<Rightarrow> (Inl (HTTPException st detail), s)
      | Inl e \<Rightarrow> (Inl (HTTPException 500 (''Failed to delete document: '' @ exn_str e)), s)
      | Inr (r, s') \<Rightarrow> (Inr r, s'))"

section \<open>Deleting a search space\<close>

text \<open>
  Modelled from the spec: the deletion of a search space; the search-space routes are not
  among the sources. "Deleting a SearchSpace cascades to delete its Documents, Chunks,
  Podcasts, Chats." The cascades are the ones \<^verbatim>\<open>db.py\<close> declares: the relationships
  \<^verbatim>\<open>documents\<close>, \<^verbatim>\<open>podcasts\<close> and \<^verbatim>\<open>chats\<close> of \<^verbatim>\<open>SearchSpace\<close> carry
  \<^verbatim>\<open>cascade="all, delete-orphan"\<close>, so deleting the space deletes each of its documents
  as \<^verbatim>\<open>session.delete\<close> does (chunks included), its podcasts and its chats.
\<close>

definition delete_search_space_row :: "SearchSpace \<Rightarrow> db \<Rightarrow> db" where
  "delete_search_space_row sp s =
     (let s1 = fold delete_document_row
                 (filter (\<lambda>d. doc_search_space_id d = space_id sp) (documents s)) s
      in s1\<lparr>podcasts := filter (\<lambda>p. podcast_search_space_id p \<noteq> space_id sp) (podcasts s1),
             chats := filter (\<lambda>c. chat_search_space_id c \<noteq> space_id sp) (chats s1),
             searchspaces := filter (\<lambda>x. space_id x \<noteq> space_id sp) (searchspaces s1)\<rparr>)"

definition delete_search_space :: "int \<Rightarrow> db \<Rightarrow> uuid \<Rightarrow> (exn + response) \<times> db" where
  "delete_search_space search_space_id s user =
     (case check_ownership (searchspaces s) space_id space_user_id search_space_id user of
        Inl e \<Rightarrow> (Inl e, s)
      | Inr db_search_space \<Rightarrow>
          (Inr [(''message'', JStr ''Search space deleted successfully'')],
           delete_search_space_row db_search_space s))"

section \<open>Ingestion and embedding dimensions\<close>

text \<open>
  Modelled from the spec: \<^verbatim>\<open>createDocumentWithChunks\<close> of the content store; the
  ingestion tasks of \<^verbatim>\<open>app.tasks\<close> are not among the sources. The embeddings of the
  document and of each chunk are computed through the embedding provider before the commit,
  a provider failure aborts the whole write, and "all stored vectors must match [the
  configured dimension] exactly: mismatched dimensions are a hard ingestion failure". The
  commit stores the document and its chunks together or, when the database refuses one of
  the rows, nothing. The provider is the parameter \<open>embed_text\<close> (\<open>None\<close> when it
  fails).
\<close>

datatype ingestion_failure = ProviderFailure | RowRefused

definition new_chunks :: "int \<Rightarrow> datetime \<Rightarrow> int \<Rightarrow> (string \<times> vector) list \<Rightarrow> Chunk list" where
  "new_chunks first_id now document_id texts_and_vectors =
     map (\<lambda>(i, text, v). \<lparr>chunk_id = first_id + int i, chunk_created_at = now,
                             chunk_content = text, chunk_embedding = Some v,
                             chunk_document_id = document_id\<rparr>)
       (zip [0 ..< length texts_and_vectors] texts_and_vectors)"

definition createDocumentWithChunks ::
  "nat \<Rightarrow> (string \<Rightarrow> vector option) \<Rightarrow> db \<Rightarrow> datetime \<Rightarrow> int \<Rightarrow> DocumentType \<Rightarrow> string \<Rightarrow> string \<Rightarrow>
     string option \<Rightarrow> string list \<Rightarrow> (ingestion_failure + int) \<times> db" where
  "createDocumentWithChunks dimension embed_text s now searchSpaceId documentType title content metadata chunkTexts =
     (case embed_text content of
        None \<Rightarrow> (Inl ProviderFailure, s)
      | Some document_vector \<Rightarrow>
     (case those (map embed_text chunkTexts) of
        None \<Rightarrow> (Inl ProviderFailure, s)
      | Some chunk_vectors \<Rightarrow>
          let document_id = next_id (map doc_id (documents s));
              document = \<lparr>doc_id = document_id, doc_created_at = now, doc_title = title,
                 document_type = documentType, document_metadata = metadata,
                 doc_content = content, doc_embedding = Some document_vector,
                 doc_search_space_id = searchSpaceId\<rparr>;
              document_chunks = new_chunks (next_id (map chunk_id (chunks s))) now document_id
                 (zip chunkTexts chunk_vectors)
          in if document_accepted dimension s document \<and>
                list_all (chunk_accepted dimension) document_chunks
             then (Inr document_id,
                   s\<lparr>documents := documents s @ [document],
                     chunks := chunks s @ document_chunks\<rparr>)
             else (Inl RowRefused, s)))"

text \<open>
  Modelled from the spec: the creation of a search space; the search-space routes are not
  among the sources. A search space is "exclusively owned by one user"; the request
  carries the name and the description of \<^verbatim>\<open>SearchSpaceCreate\<close>.
\<close>

definition create_search_space :: "string \<Rightarrow> string option \<Rightarrow> db \<Rightarrow> uuid \<Rightarrow> datetime \<Rightarrow> SearchSpace \<times> db" where
  "create_search_space name description s user now =
     (let db_search_space = \<lparr>space_id = next_id (map space_id (searchspaces s)),
             space_created_at = now, space_name = name, space_description = description,
             space_user_id = user\<rparr>
      in (db_search_space, s\<lparr>searchspaces := searchspaces s @ [db_search_space]\<rparr>))"

text \<open>
  The operations that write rows of documents and chunks, or the search spaces they
  belong to, and a history of them. Connector indexing and the ingestion tasks store their
  documents through \<^verbatim>\<open>createDocumentWithChunks\<close>, the atomic write of the content
  store.
\<close>

datatype store_op =
  CreateSearchSpace string "string option" uuid datetime
| Ingest datetime int DocumentType string string "string option" "string list"
| UpdateDocument int "Document \<Rightarrow> Document" uuid
| DeleteDocument int uuid
| DeleteSearchSpace int uuid

fun apply_store_op :: "nat \<Rightarrow> (string \<Rightarrow> vector option) \<Rightarrow> store_op \<Rightarrow> db \<Rightarrow> db" where
  "apply_store_op dimension embed_text (CreateSearchSpace name description user now) s =
     snd (create_search_space name description s user now)"
| "apply_store_op dimension embed_text (Ingest now sid ty title content metadata chunkTexts) s =
     snd (createDocumentWithChunks dimension embed_text s now sid ty title content metadata chunkTexts)"
| "apply_store_op dimension embed_text (UpdateDocument document_id document_update user) s =
     snd (update_document dimension document_id document_update s user)"
| "apply_store_op dimension embed_text (DeleteDocument document_id user) s =
     snd (delete_document document_id s user)"
| "apply_store_op dimension embed_text (DeleteSearchSpace search_space_id user) s =
     snd (delete_search_space search_space_id s user)"

definition embedding_dimensions_ok :: "nat \<Rightarrow> db \<Rightarrow> bool" where
  "embedding_dimensions_ok dimension s =
     (list_all (\<lambda>d. has_dimension dimension (doc_embedding d)) (documents s) \<and>
      list_all (\<lambda>c. has_dimension dimension (chunk_embedding c)) (chunks s))"

text \<open>
  The per-(user, connector type) uniqueness, and the primary key, as properties of the
  stored rows.
\<close>

definition one_connector_per_type :: "db \<Rightarrow> bool" where
  "one_connector_per_type s = distinct (map (\<lambda>c. (conn_user_id c, connector_type c)) (connectors s))"

definition primary_keys_ok :: "db \<Rightarrow> bool" where
  "primary_keys_ok s = distinct (map conn_id (connectors s))"

text \<open>The checkpoint of a connector as stored: \<open>None\<close> when there is no such row.\<close>

definition checkpoint_of :: "db \<Rightarrow> int \<Rightarrow> datetime option option" where
  "checkpoint_of s connector_id = map_option last_indexed_at (connector_by_id connector_id (connectors s))"

subsection \<open>Sample data\<close>

definition t_morning :: datetime where
  "t_morning = \<lparr>year = 2025, month = 4, day = 10, hour = 9, minute = 0, second = 0, microsecond = 0\<rparr>"

definition t_later :: datetime where
  "t_later = \<lparr>year = 2025, month = 4, day = 10, hour = 9, minute = 5, second = 0, microsecond = 0\<rparr>"

definition t_march :: datetime where
  "t_march = \<lparr>year = 2025, month = 3, day = 7, hour = 18, minute = 30, second = 0, microsecond = 0\<rparr>"

definition slack_row :: SearchSourceConnector where
  "slack_row = \<lparr>conn_id = 1, conn_created_at = t_march, conn_name = ''team slack'',
     connector_type = SLACK_CONNECTOR, is_indexable = True, last_indexed_at = None,
     conn_config = ''token'', conn_user_id = 7\<rparr>"

definition space_row :: SearchSpace where
  "space_row = \<lparr>space_id = 1, space_created_at = t_march, space_name = ''research'',
     space_description = None, space_user_id = 7\<rparr>"

definition sample_db :: db where
  "sample_db = \<lparr>chats = [], documents = [], chunks = [], podcasts = [],
     searchspaces = [space_row], connectors = [slack_row]\<rparr>"

definition notion_row :: SearchSourceConnector where
  "notion_row = \<lparr>conn_id = 2, conn_created_at = t_march, conn_name = ''wiki'',
     connector_type = NOTION_CONNECTOR, is_indexable = True, last_indexed_at = Some t_march,
     conn_config = ''secret'', conn_user_id = 7\<rparr>"

definition two_connectors_db :: db where
  "two_connectors_db = \<lparr>chats = [], documents = [], chunks = [], podcasts = [],
     searchspaces = [space_row], connectors = [slack_row, notion_row]\<rparr>"

definition slack_request :: SearchSourceConnectorBase where
  "slack_request = \<lparr>req_name = ''second slack'', req_connector_type = SLACK_CONNECTOR,
     req_is_indexable = True, req_last_indexed_at = None, req_config = ''other token''\<rparr>"

definition github_row :: SearchSourceConnector where
  "github_row = \<lparr>conn_id = 3, conn_created_at = t_march, conn_name = ''code'',
     connector_type = GITHUB_CONNECTOR, is_indexable = True, last_indexed_at = None,
     conn_config = ''pat'', conn_user_id = 7\<rparr>"

definition github_db :: db where
  "github_db = \<lparr>chats = [], documents = [], chunks = [], podcasts = [],
     searchspaces = [space_row], connectors = [github_row]\<rparr>"

definition indexed_today_db :: db where
  "indexed_today_db = \<lparr>chats = [], documents = [], chunks = [], podcasts = [],
     searchspaces = [space_row],
     connectors = [slack_row\<lparr>last_indexed_at := Some t_morning\<rparr>]\<rparr>"

definition doc_row :: Document where
  "doc_row = \<lparr>doc_id = 5, doc_created_at = t_march, doc_title = ''notes'',
     document_type = FILE, document_metadata = None, doc_content = ''some text'',
     doc_embedding = Some [1, 0], doc_search_space_id = 1\<rparr>"

definition chunk_row :: Chunk where
  "chunk_row = \<lparr>chunk_id = 11, chunk_created_at = t_march, chunk_content = ''some'',
     chunk_embedding = Some [0, 1], chunk_document_id = 5\<rparr>"

definition podcast_row :: Podcast where
  "podcast_row = \<lparr>podcast_id = 1, podcast_created_at = t_march, podcast_title = ''weekly'',
     is_generated = False, podcast_content = [], file_location = [],
     podcast_search_space_id = 1\<rparr>"

definition chat_row :: Chat where
  "chat_row = \<lparr>chat_id = 1, chat_created_at = t_march, chat_type = GENERAL,
     chat_title = ''questions'', chat_search_space_id = 1\<rparr>"

definition library_db :: db where
  "library_db = \<lparr>chats = [chat_row], documents = [doc_row], chunks = [chunk_row],
     podcasts = [podcast_row], searchspaces = [space_row], connectors = []\<rparr>"

definition empty_db :: db where
  "empty_db = \<lparr>chats = [], documents = [], chunks = [], podcasts = [], searchspaces = [],
     connectors = []\<rparr>"

definition file_request :: DocumentsCreate where
  "file_request = \<lparr>req_document_type = FILE, req_content = [''report.pdf''],
     req_search_space_id = 1\<rparr>"

text \<open>A provider of dimension two.\<close>

definition unit_embed :: "string \<Rightarrow> vector option" where
  "unit_embed text = Some [real (length text), 1]"

text \<open>Two updates of a document: a new title, and an embedding of dimension one.\<close>

definition rename_document :: "Document \<Rightarrow> Document" where
  "rename_document d = d\<lparr>doc_title := ''renamed''\<rparr>"

definition shrink_embedding :: "Document \<Rightarrow> Document" where
  "shrink_embedding d = d\<lparr>doc_embedding := Some [1]\<rparr>"

definition memo_history :: "store_op list" where
  "memo_history =
     [CreateSearchSpace ''research'' None 7 t_march,
      Ingest t_later 1 FILE ''memo'' ''abc'' None [''a'', ''bc''],
      UpdateDocument 1 shrink_embedding 7,
      UpdateDocument 1 rename_document 7]"

definition memo_document :: Document where
  "memo_document = \<lparr>doc_id = 1, doc_created_at = t_later, doc_title = ''renamed'',
     document_type = FILE, document_metadata = None, doc_content = ''abc'',
     doc_embedding = Some [3, 1], doc_search_space_id = 1\<rparr>"

definition memo_chunk :: Chunk where
  "memo_chunk = \<lparr>chunk_id = 2, chunk_created_at = t_later, chunk_content = ''bc'',
     chunk_embedding = Some [2, 1], chunk_document_id = 1\<rparr>"

text \<open>An indexer that ingests three items in five minutes and reports no error.\<close>

definition three_items_indexer :: indexer where
  "three_items_indexer s now connector_id search_space_id update_last_indexed =
     (Inr (3, None), s, t_later)"

section \<open>Lemmas on strings and the checkpoint write\<close>

lemma is_prefix_iff: "is_prefix p s \<longleftrightarrow> (\<exists>r. s = p @ r)"
  by (induction p s rule: is_prefix.induct) auto

lemma str_contains_iff: "str_contains sub s \<longleftrightarrow> (\<exists>l r. s = l @ sub @ r)"
proof (induction s)
  case Nil
  then show ?case by auto
next
  case (Cons c s)
  show ?case
  proof
    assume "str_contains sub (c # s)"
    then consider "is_prefix sub (c # s)" | "str_contains sub s" by auto
    then show "\<exists>l r. c # s = l @ sub @ r"
    proof cases
      case 1
      then obtain r where "c # s = sub @ r" by (auto simp: is_prefix_iff)
      then have "c # s = [] @ sub @ r" by simp
      then show ?thesis by blast
    next
      case 2
      with Cons obtain l r where "s = l @ sub @ r" by auto
      then have "c # s = (c # l) @ sub @ r" by simp
      then show ?thesis by blast
    qed
  next
    assume "\<exists>l r. c # s = l @ sub @ r"
    then obtain l r where lr: "c # s = l @ sub @ r" by auto
    show "str_contains sub (c # s)"
    proof (cases l)
      case Nil
      with lr have "is_prefix sub (c # s)" by (auto simp: is_prefix_iff)
      then show ?thesis by simp
    next
      case (Cons a l')
      with lr have "s = l' @ sub @ r" by simp
      with Cons.IH have "str_contains sub s" by blast
      then show ?thesis by simp
    qed
  qed
qed

lemma by_id_set_last_indexed:
  "connector_by_id k (set_last_indexed cid t cs) =
     (if k = cid then map_option (\<lambda>c. c\<lparr>last_indexed_at := Some t\<rparr>) (connector_by_id k cs)
      else connector_by_id k cs)"
  by (induction cs) (auto simp: connector_by_id_def)

lemma by_id_update_connector_last_indexed:
  "connector_by_id k (connectors (update_connector_last_indexed s t cid)) =
     (if k = cid then map_option (\<lambda>c. c\<lparr>last_indexed_at := Some t\<rparr>) (connector_by_id k (connectors s))
      else connector_by_id k (connectors s))"
  by (auto simp: update_connector_last_indexed_def by_id_set_last_indexed split: option.splits)

lemma update_connector_last_indexed_others:
  "chats (update_connector_last_indexed s t cid) = chats s \<and>
   documents (update_connector_last_indexed s t cid) = documents s \<and>
   chunks (update_connector_last_indexed s t cid) = chunks s \<and>
   podcasts (update_connector_last_indexed s t cid) = podcasts s \<and>
   searchspaces (update_connector_last_indexed s t cid) = searchspaces s"
  by (simp add: update_connector_last_indexed_def split: option.splits)

lemma run_slack_indexing_result:
  assumes "index s now cid sid False = (r, s1, now1)"
  shows "run_slack_indexing index s now cid sid =
           (if reported_success r then update_connector_last_indexed s1 now1 cid else s1, now1)"
  using assms by (cases r) (auto simp: run_slack_indexing_def)

lemma run_notion_indexing_result:
  assumes "index s now cid sid False = (r, s1, now1)"
  shows "run_notion_indexing index s now cid sid =
           (if reported_success r then update_connector_last_indexed s1 now1 cid else s1, now1)"
  using assms by (cases r) (auto simp: run_notion_indexing_def)

lemma reported_success_iff:
  "reported_success r \<longleftrightarrow>
     (\<exists>n m. r = Inr (n, m) \<and> n \<ge> 1 \<and> (m = None \<or> (\<exists>msg l t. m = Some msg \<and> msg = l @ ''Indexed'' @ t)))"
proof (cases r)
  case (Inl e)
  then show ?thesis by simp
next
  case (Inr p)
  obtain n m where p: "p = (n, m)" by (cases p)
  show ?thesis
  proof (cases m)
    case None
    with Inr p show ?thesis by (auto simp: indexing_successful_def)
  next
    case (Some msg)
    have "str_contains ''Indexed'' msg \<longleftrightarrow> (\<exists>l t. msg = l @ ''Indexed'' @ t)"
      by (rule str_contains_iff)
    with Inr p Some show ?thesis by (auto simp: indexing_successful_def)
  qed
qed

lemma run_indexing_checkpoint:
  assumes call: "index s now cid sid False = (r, s1, now1)"
    and kept: "connector_by_id cid (connectors s1) = Some c"
  shows "\<forall>run \<in> {run_slack_indexing, run_notion_indexing}.
           connector_by_id cid (connectors (fst (run index s now cid sid))) =
             Some (if reported_success r then c\<lparr>last_indexed_at := Some now1\<rparr> else c) \<and>
           (\<not> reported_success r \<longrightarrow> fst (run index s now cid sid) = s1)"
proof -
  have slack: "fst (run_slack_indexing index s now cid sid) =
                 (if reported_success r then update_connector_last_indexed s1 now1 cid else s1)"
    using run_slack_indexing_result [of index s now cid sid r s1 now1] call by simp
  have notion: "fst (run_notion_indexing index s now cid sid) =
                 (if reported_success r then update_connector_last_indexed s1 now1 cid else s1)"
    using run_notion_indexing_result [of index s now cid sid r s1 now1] call by simp
  have upd: "connector_by_id cid (connectors (update_connector_last_indexed s1 now1 cid)) =
               Some (c\<lparr>last_indexed_at := Some now1\<rparr>)"
    using kept by (simp add: by_id_update_connector_last_indexed)
  show ?thesis
    using slack notion upd kept by simp
qed

section \<open>Checkpoint advancement\<close>

text \<open>
  C1. A run of either kind, on a connector row that the indexing function itself left as
  it was (it is called with \<^verbatim>\<open>update_last_indexed=False\<close>), writes the checkpoint if
  and only if the indexing function returned \<open>(n, m)\<close> with \<open>n \<ge> 1\<close> and \<open>m\<close> either
  absent or a message containing "Indexed": then \<^verbatim>\<open>last_indexed_at\<close> is the clock value
  read after the indexing call. In every other case (no document, a message without
  "Indexed", an exception) the row is the one the run found and the run writes nothing.
\<close>

theorem checkpoint_written_iff_success:
  assumes call: "index s now cid sid False = (r, s1, now1)"
    and row: "connector_by_id cid (connectors s) = Some c"
    and kept: "connector_by_id cid (connectors s1) = Some c"
  shows "\<forall>run \<in> {run_slack_indexing, run_notion_indexing}.
           connector_by_id cid (connectors (fst (run index s now cid sid))) =
             Some (if (\<exists>n m. r = Inr (n, m) \<and> n \<ge> 1 \<and>
                        (m = None \<or> (\<exists>msg l t. m = Some msg \<and> msg = l @ ''Indexed'' @ t)))
                   then c\<lparr>last_indexed_at := Some now1\<rparr> else c) \<and>
           (\<not> (\<exists>n m. r = Inr (n, m) \<and> n \<ge> 1 \<and>
                        (m = None \<or> (\<exists>msg l t. m = Some msg \<and> msg = l @ ''Indexed'' @ t)))
              \<longrightarrow> fst (run index s now cid sid) = s1)"
  by (rule run_indexing_checkpoint [of index s now cid sid r s1 now1 c, OF call kept,
        unfolded reported_success_iff])

theorem checkpoint_written_iff_success_witness:
  "three_items_indexer sample_db t_morning 1 1 False = (Inr (3, None), sample_db, t_later) \<and>
   connector_by_id 1 (connectors sample_db) = Some slack_row \<and>
   connector_by_id 1 (connectors (fst (run_slack_indexing three_items_indexer sample_db t_morning 1 1)))
     = Some (slack_row\<lparr>last_indexed_at := Some t_later\<rparr>) \<and>
   connector_by_id 1 (connectors (fst (run_notion_indexing three_items_indexer sample_db t_morning 1 1)))
     = Some (slack_row\<lparr>last_indexed_at := Some t_later\<rparr>)"
proof -
  have call: "three_items_indexer sample_db t_morning 1 1 False = (Inr (3, None), sample_db, t_later)"
    by (simp add: three_items_indexer_def)
  have row: "connector_by_id 1 (connectors sample_db) = Some slack_row"
    by (simp add: connector_by_id_def sample_db_def slack_row_def)
  show ?thesis
    using checkpoint_written_iff_success
      [of three_items_indexer sample_db t_morning 1 1 "Inr (3, None)" sample_db t_later slack_row]
      call row by simp
qed

text \<open>
  C3 as stated fails: the checkpoint is the clock value read by
  \<^verbatim>\<open>update_connector_last_indexed\<close>, after the awaited indexing call has returned. A
  run started at 09:00 whose indexing call ingests three items and returns at 09:05 stores
  09:05, not 09:00.
\<close>

theorem checkpoint_not_start_time_counterexample:
  "three_items_indexer sample_db t_morning 1 1 False = (Inr (3, None), sample_db, t_later) \<and>
   checkpoint_of (fst (run_slack_indexing three_items_indexer sample_db t_morning 1 1)) 1
     \<noteq> Some (Some t_morning)"
  by (simp add: three_items_indexer_def run_slack_indexing_def indexing_successful_def
      update_connector_last_indexed_def connector_by_id_def checkpoint_of_def
      sample_db_def slack_row_def t_morning_def t_later_def)

text \<open>
  C3 (amended). A run whose indexing call returns \<open>n \<ge> 1\<close> documents and no message
  sets \<^verbatim>\<open>last_indexed_at\<close> of the connector to the clock value at which the indexing call
  returned (the time of the checkpoint write), whatever the start time of the run was.
\<close>

theorem checkpoint_is_write_time:
  assumes call: "index s now cid sid False = (Inr (n, None), s1, now1)"
    and docs: "n \<ge> 1"
    and row: "connector_by_id cid (connectors s1) = Some c"
  shows "checkpoint_of (fst (run_slack_indexing index s now cid sid)) cid = Some (Some now1) \<and>
         checkpoint_of (fst (run_notion_indexing index s now cid sid)) cid = Some (Some now1)"
proof -
  have ok: "reported_success (Inr (n, None))"
    using docs by (simp add: indexing_successful_def)
  have slack: "fst (run_slack_indexing index s now cid sid) = update_connector_last_indexed s1 now1 cid"
    using run_slack_indexing_result [of index s now cid sid "Inr (n, None)" s1 now1] call ok by simp
  have notion: "fst (run_notion_indexing index s now cid sid) = update_connector_last_indexed s1 now1 cid"
    using run_notion_indexing_result [of index s now cid sid "Inr (n, None)" s1 now1] call ok by simp
  have "checkpoint_of (update_connector_last_indexed s1 now1 cid) cid = Some (Some now1)"
    using row by (simp add: checkpoint_of_def by_id_update_connector_last_indexed)
  with slack notion show ?thesis by simp
qed

theorem checkpoint_is_write_time_witness:
  "three_items_indexer sample_db t_morning 1 1 False = (Inr (3, None), sample_db, t_later) \<and>
   (3 :: int) \<ge> 1 \<and>
   connector_by_id 1 (connectors sample_db) = Some slack_row \<and>
   checkpoint_of (fst (run_slack_indexing three_items_indexer sample_db t_morning 1 1)) 1 = Some (Some t_later) \<and>
   checkpoint_of (fst (run_notion_indexing three_items_indexer sample_db t_morning 1 1)) 1 = Some (Some t_later)"
proof -
  have call: "three_items_indexer sample_db t_morning 1 1 False = (Inr (3, None), sample_db, t_later)"
    by (simp add: three_items_indexer_def)
  have row: "connector_by_id 1 (connectors sample_db) = Some slack_row"
    by (simp add: connector_by_id_def sample_db_def slack_row_def)
  show ?thesis
    using checkpoint_is_write_time [of three_items_indexer sample_db t_morning 1 1 3 sample_db t_later slack_row]
      call row by simp
qed

section \<open>Uniqueness of connectors per owner and type\<close>

lemma fold_max_ge: "(a :: int) \<le> fold max ids a \<and> (\<forall>x \<in> set ids. x \<le> fold max ids a)"
proof (induction ids arbitrary: a)
  case Nil
  then show ?case by simp
next
  case (Cons i ids)
  have "max i a \<le> fold max ids (max i a)" and "\<forall>x \<in> set ids. x \<le> fold max ids (max i a)"
    using Cons.IH [of "max i a"] by auto
  then show ?case by auto
qed

lemma next_id_fresh: "next_id ids \<notin> set ids"
proof
  assume "next_id ids \<in> set ids"
  then have "next_id ids \<le> fold max ids 0" using fold_max_ge [of 0 ids] by blast
  then show False by (simp add: next_id_def)
qed

lemma update_first_keys:
  assumes "\<And>x. P x \<Longrightarrow> k (f x) = v"
  shows "k ` set (update_first P f xs) \<subseteq> insert v (k ` set xs)"
  using assms by (induction xs) auto

lemma others_of_subset: "set (others_of P xs) \<subseteq> set xs"
  by (induction xs) auto

lemma distinct_update_first:
  assumes "distinct (map k xs)"
    and "\<And>x. P x \<Longrightarrow> k (f x) = v"
    and "v \<notin> k ` set (others_of P xs)"
  shows "distinct (map k (update_first P f xs))"
  using assms
proof (induction xs)
  case Nil
  then show ?case by simp
next
  case (Cons x xs)
  show ?case
  proof (cases "P x")
    case True
    with Cons.prems show ?thesis by auto
  next
    case False
    have d: "distinct (map k xs)" and nx: "k x \<notin> k ` set xs"
      using Cons.prems(1) by auto
    have ne: "k x \<noteq> v" and rest: "v \<notin> k ` set (others_of P xs)"
      using Cons.prems(3) False by auto
    have "distinct (map k (update_first P f xs))"
      using Cons.IH [OF d Cons.prems(2) rest] .
    moreover have "k x \<notin> k ` set (update_first P f xs)"
      using update_first_keys [of P k f v xs] Cons.prems(2) nx ne by blast
    ultimately show ?thesis using False by simp
  qed
qed

lemma update_first_same_key:
  assumes "\<And>x. k (f x) = k x"
  shows "map k (update_first P f xs) = map k xs"
  using assms by (induction xs) auto

lemma find_Some_D: "find P xs = Some x \<Longrightarrow> x \<in> set xs \<and> P x"
  by (induction xs) (auto split: if_splits)

lemma find_None_D: "find P xs = None \<Longrightarrow> x \<in> set xs \<Longrightarrow> \<not> P x"
  by (induction xs) (auto split: if_splits)

lemma create_keeps_invariants:
  assumes "one_connector_per_type s" and "primary_keys_ok s"
  shows "one_connector_per_type (snd (create_search_source_connector connector s user now)) \<and>
         primary_keys_ok (snd (create_search_source_connector connector s user now))"
proof (cases "find (\<lambda>c. conn_user_id c = user \<and> connector_type c = req_connector_type connector) (connectors s)")
  case (Some c)
  with assms show ?thesis by (simp add: create_search_source_connector_def)
next
  case None
  have nopair: "(user, req_connector_type connector) \<notin> (\<lambda>c. (conn_user_id c, connector_type c)) ` set (connectors s)"
    using find_None_D [OF None] by fastforce
  have fresh: "next_id (map conn_id (connectors s)) \<notin> conn_id ` set (connectors s)"
    using next_id_fresh [of "map conn_id (connectors s)"] by simp
  show ?thesis
    using None assms nopair fresh
    by (simp add: create_search_source_connector_def Let_def one_connector_per_type_def primary_keys_ok_def)
qed

lemma create_duplicate_rejected:
  assumes "c \<in> set (connectors s)" and "conn_user_id c = user"
    and "connector_type c = req_connector_type connector"
  shows "create_search_source_connector connector s user now =
           (Inl (HTTPException 409 (already_exists_detail (req_connector_type connector))), s)"
proof (cases "find (\<lambda>c. conn_user_id c = user \<and> connector_type c = req_connector_type connector) (connectors s)")
  case None
  from find_None_D [OF None assms(1)] assms(2,3) show ?thesis by simp
next
  case (Some e)
  then show ?thesis by (simp add: create_search_source_connector_def)
qed

lemma update_keeps_invariants:
  assumes inv: "one_connector_per_type s" and pk: "primary_keys_ok s"
  shows "one_connector_per_type (snd (update_search_source_connector cid u s user)) \<and>
         primary_keys_ok (snd (update_search_source_connector cid u s user))"
proof (cases "check_ownership (connectors s) conn_id conn_user_id cid user")
  case (Inl e)
  with assms show ?thesis by (simp add: update_search_source_connector_def)
next
  case (Inr r)
  let ?mine = "\<lambda>c. conn_id c = cid \<and> conn_user_id c = user"
  let ?k = "\<lambda>c. (conn_user_id c, connector_type c)"
  let ?new = "update_first ?mine (apply_update u) (connectors s)"
  have ids: "map conn_id ?new = map conn_id (connectors s)"
    by (rule update_first_same_key) (simp add: apply_update_def)
  have uniq: "distinct (map ?k ?new)"
    if free: "\<not> list_ex (\<lambda>c. connector_type c = req_connector_type u) (others_of ?mine (connectors s))"
  proof (rule distinct_update_first [where v = "(user, req_connector_type u)"])
    show "distinct (map ?k (connectors s))" using inv by (simp add: one_connector_per_type_def)
    show "\<And>x. ?mine x \<Longrightarrow> ?k (apply_update u x) = (user, req_connector_type u)"
      by (simp add: apply_update_def)
    show "(user, req_connector_type u) \<notin> ?k ` set (others_of ?mine (connectors s))"
      using free by (auto simp: list_ex_iff)
  qed
  have ty: "connector_type (apply_update u r) = req_connector_type u"
    by (simp add: apply_update_def)
  show ?thesis
    using Inr assms uniq ids ty
    by (auto simp: update_search_source_connector_def Let_def one_connector_per_type_def
        primary_keys_ok_def)
qed

lemma update_conflict_rejected:
  assumes inv: "one_connector_per_type s"
    and mine: "r \<in> set (connectors s)" "conn_id r = cid" "conn_user_id r = user"
    and other: "c \<in> set (connectors s)" "conn_user_id c = user"
      "connector_type c = req_connector_type u" "conn_id c \<noteq> cid"
  shows "update_search_source_connector cid u s user =
           (Inl (HTTPException 409 (already_exists_detail (req_connector_type u))), s)"
proof -
  let ?k = "\<lambda>c. (conn_user_id c, connector_type c)"
  have inj: "inj_on ?k (set (connectors s))"
    using inv by (simp add: one_connector_per_type_def distinct_map)
  obtain d where d: "find (\<lambda>x. conn_id x = cid \<and> conn_user_id x = user) (connectors s) = Some d"
    using find_None_D [of "\<lambda>x. conn_id x = cid \<and> conn_user_id x = user" "connectors s" r] mine
    by (cases "find (\<lambda>x. conn_id x = cid \<and> conn_user_id x = user) (connectors s)") auto
  have dset: "d \<in> set (connectors s)" and did: "conn_id d = cid" and duser: "conn_user_id d = user"
    using find_Some_D [OF d] by auto
  have "connector_type d \<noteq> req_connector_type u"
  proof
    assume "connector_type d = req_connector_type u"
    then have "?k d = ?k c" using duser other by simp
    then have "d = c" using inj dset other(1) by (auto dest: inj_onD)
    then show False using did other(4) by simp
  qed
  moreover have "find (\<lambda>x. conn_user_id x = user \<and> connector_type x = req_connector_type u \<and> conn_id x \<noteq> cid)
                   (connectors s) \<noteq> None"
    using find_None_D [of _ "connectors s" c] other by fastforce
  ultimately show ?thesis
    using d by (simp add: update_search_source_connector_def check_ownership_def)
qed

lemma distinct_others_of: "distinct (map k xs) \<Longrightarrow> distinct (map k (others_of P xs))"
proof (induction xs)
  case Nil
  then show ?case by simp
next
  case (Cons x xs)
  have "k x \<notin> k ` set (others_of P xs)"
    using Cons.prems others_of_subset [of P xs] by auto
  with Cons show ?case by auto
qed

lemma delete_keeps_invariants:
  assumes "one_connector_per_type s" and "primary_keys_ok s"
  shows "one_connector_per_type (snd (delete_search_source_connector cid s user)) \<and>
         primary_keys_ok (snd (delete_search_source_connector cid s user))"
  using assms
  by (cases "check_ownership (connectors s) conn_id conn_user_id cid user")
    (simp_all add: delete_search_source_connector_def one_connector_per_type_def
      primary_keys_ok_def distinct_others_of)

lemma set_last_indexed_keys:
  "map (\<lambda>c. (conn_user_id c, connector_type c)) (set_last_indexed cid t cs) =
     map (\<lambda>c. (conn_user_id c, connector_type c)) cs \<and>
   map conn_id (set_last_indexed cid t cs) = map conn_id cs"
  by (induction cs) auto

lemma checkpoint_write_keeps_invariants:
  assumes "one_connector_per_type s" and "primary_keys_ok s"
  shows "one_connector_per_type (update_connector_last_indexed s t cid) \<and>
         primary_keys_ok (update_connector_last_indexed s t cid)"
  using assms
  by (simp add: update_connector_last_indexed_def one_connector_per_type_def primary_keys_ok_def
      set_last_indexed_keys split: option.splits)

text \<open>
  C4. On a database whose connectors are unique per (owner, connector type), every write
  keeps that uniqueness (and the primary key): creating, updating and deleting a connector
  and writing the checkpoint. Creating a connector of a type the owner already has is
  rejected with status 409 and the database is the one before the call; updating a
  connector of the caller to a type that another connector of the caller holds is rejected
  with status 409 and the database is the one before the call.
\<close>

theorem connector_uniqueness_preserved:
  assumes "one_connector_per_type s" and "primary_keys_ok s"
  shows "one_connector_per_type (snd (create_search_source_connector connector s user now)) \<and>
         primary_keys_ok (snd (create_search_source_connector connector s user now)) \<and>
         one_connector_per_type (snd (update_search_source_connector cid u s user)) \<and>
         primary_keys_ok (snd (update_search_source_connector cid u s user)) \<and>
         one_connector_per_type (snd (delete_search_source_connector cid s user)) \<and>
         primary_keys_ok (snd (delete_search_source_connector cid s user)) \<and>
         one_connector_per_type (update_connector_last_indexed s now cid) \<and>
         primary_keys_ok (update_connector_last_indexed s now cid) \<and>
         ((\<exists>c \<in> set (connectors s). conn_user_id c = user \<and> connector_type c = req_connector_type connector)
            \<longrightarrow> (\<exists>detail. create_search_source_connector connector s user now =
                   (Inl (HTTPException 409 detail), s))) \<and>
         ((\<exists>r \<in> set (connectors s). conn_id r = cid \<and> conn_user_id r = user) \<and>
          (\<exists>c \<in> set (connectors s). conn_user_id c = user \<and> connector_type c = req_connector_type u \<and>
                 conn_id c \<noteq> cid)
            \<longrightarrow> (\<exists>detail. update_search_source_connector cid u s user =
                   (Inl (HTTPException 409 detail), s)))"
proof -
  have "\<exists>detail. create_search_source_connector connector s user now = (Inl (HTTPException 409 detail), s)"
    if "\<exists>c \<in> set (connectors s). conn_user_id c = user \<and> connector_type c = req_connector_type connector"
    using that create_duplicate_rejected [of _ s user connector now] by blast
  moreover have "\<exists>detail. update_search_source_connector cid u s user = (Inl (HTTPException 409 detail), s)"
    if "(\<exists>r \<in> set (connectors s). conn_id r = cid \<and> conn_user_id r = user) \<and>
        (\<exists>c \<in> set (connectors s). conn_user_id c = user \<and> connector_type c = req_connector_type u \<and>
               conn_id c \<noteq> cid)"
    using that update_conflict_rejected [OF assms(1), of _ cid user _ u] by blast
  ultimately show ?thesis
    using create_keeps_invariants [OF assms, of connector user now]
      update_keeps_invariants [OF assms, of cid u user]
      delete_keeps_invariants [OF assms, of cid user]
      checkpoint_write_keeps_invariants [OF assms, of now cid]
    by blast
qed

theorem connector_uniqueness_preserved_witness:
  "one_connector_per_type two_connectors_db \<and> primary_keys_ok two_connectors_db \<and>
   slack_row \<in> set (connectors two_connectors_db) \<and> conn_user_id slack_row = 7 \<and>
   connector_type slack_row = req_connector_type slack_request \<and> conn_id slack_row \<noteq> 2 \<and>
   notion_row \<in> set (connectors two_connectors_db) \<and> conn_id notion_row = 2 \<and>
   conn_user_id notion_row = 7 \<and>
   create_search_source_connector slack_request two_connectors_db 7 t_morning =
     (Inl (HTTPException 409 (already_exists_detail SLACK_CONNECTOR)), two_connectors_db) \<and>
   update_search_source_connector 2 slack_request two_connectors_db 7 =
     (Inl (HTTPException 409 (already_exists_detail SLACK_CONNECTOR)), two_connectors_db) \<and>
   one_connector_per_type (snd (create_search_source_connector slack_request two_connectors_db 7 t_morning)) \<and>
   one_connector_per_type (snd (update_search_source_connector 2 slack_request two_connectors_db 7))"
proof -
  have inv: "one_connector_per_type two_connectors_db"
    by (simp add: one_connector_per_type_def two_connectors_db_def slack_row_def notion_row_def)
  have pk: "primary_keys_ok two_connectors_db"
    by (simp add: primary_keys_ok_def two_connectors_db_def slack_row_def notion_row_def)
  have rows: "slack_row \<in> set (connectors two_connectors_db) \<and> conn_user_id slack_row = 7 \<and>
      connector_type slack_row = req_connector_type slack_request \<and> conn_id slack_row \<noteq> 2 \<and>
      notion_row \<in> set (connectors two_connectors_db) \<and> conn_id notion_row = 2 \<and>
      conn_user_id notion_row = 7"
    by (simp add: two_connectors_db_def slack_row_def notion_row_def slack_request_def)
  have cr: "create_search_source_connector slack_request two_connectors_db 7 t_morning =
      (Inl (HTTPException 409 (already_exists_detail SLACK_CONNECTOR)), two_connectors_db)"
    by (simp add: create_search_source_connector_def two_connectors_db_def slack_row_def
        notion_row_def slack_request_def)
  have up: "update_search_source_connector 2 slack_request two_connectors_db 7 =
      (Inl (HTTPException 409 (already_exists_detail SLACK_CONNECTOR)), two_connectors_db)"
    by (simp add: update_search_source_connector_def check_ownership_def two_connectors_db_def
        slack_row_def notion_row_def slack_request_def)
  show ?thesis
    using connector_uniqueness_preserved [OF inv pk, of slack_request 7 t_morning 2 slack_request]
      inv pk rows cr up by simp
qed

section \<open>The indexing trigger\<close>

lemma strftime_march: "strftime_ymd (2025, 3, 7) = ''2025-03-07''"
  by code_simp

lemma strftime_april: "strftime_ymd (2025, 4, 10) = ''2025-04-10''"
  by code_simp

lemma start_date_never_indexed:
  "last_indexed_at c = None \<Longrightarrow> start_date_of c now = Inr ''365 days ago''"
  by (simp add: start_date_of_def)

lemma start_date_other_day:
  "last_indexed_at c = Some t \<Longrightarrow> date_of t \<noteq> date_of now \<Longrightarrow>
     start_date_of c now = Inr (strftime_ymd (date_of t))"
  by (simp add: start_date_of_def)

lemma start_date_same_day:
  "last_indexed_at c = Some t \<Longrightarrow> date_of t = date_of now \<Longrightarrow>
     start_date_of c now = Inl no_timedelta"
  by (simp add: start_date_of_def)

text \<open>
  C2. The claim holds for a connector never indexed (the reported start is the label
  "365 days ago") and for one last indexed on another day (the reported start is that day).
  For a connector last indexed on the current calendar day the code does not reach
  yesterday's date: \<^verbatim>\<open>datetime.timedelta\<close> raises \<^verbatim>\<open>AttributeError\<close>, the generic
  handler of the route turns it into status 500, and no task is dispatched. Here the
  connector was indexed at 09:00 on 2025-04-10 and the trigger is called at 09:05.
\<close>

theorem trigger_same_day_is_500:
  "last_indexed_at (slack_row\<lparr>last_indexed_at := Some t_morning\<rparr>) = Some t_morning \<and>
   date_of t_morning = date_of t_later \<and>
   index_connector_content 1 1 indexed_today_db 7 t_later (Some []) =
     (Inl (HTTPException 500 (''Failed to start indexing: '' @ exn_str no_timedelta)),
      indexed_today_db, Some [])"
  by (simp add: index_connector_content_def index_connector_content_try_def check_ownership_def
      start_date_of_def date_of_def indexed_today_db_def slack_row_def space_row_def
      t_morning_def t_later_def no_timedelta_def)

lemma trigger_try_supported:
  assumes own_c: "check_ownership (connectors s) conn_id conn_user_id cid user = Inr c"
    and own_sp: "check_ownership (searchspaces s) space_id space_user_id sid user = Inr sp"
    and ty: "connector_type c = SLACK_CONNECTOR \<or> connector_type c = NOTION_CONNECTOR"
    and start: "start_date_of c now = Inr start_date"
  shows "index_connector_content_try cid sid s user now (Some tasks) =
     Inr ([(''success'', JBool True),
           (''message'', JStr (if connector_type c = SLACK_CONNECTOR
                               then ''Slack indexing started in the background''
                               else ''Notion indexing started in the background'')),
           (''connector_type'', JConnectorType (connector_type c)),
           (''search_space'', JStr (space_name sp)),
           (''indexing_from'', JStr start_date),
           (''indexing_to'', JStr (strftime_ymd (date_of now)))],
          Some (tasks @ [if connector_type c = SLACK_CONNECTOR
                         then run_slack_indexing_task cid sid
                         else run_notion_indexing_task cid sid]))"
  using assms by (auto simp: index_connector_content_try_def)

text \<open>
  C7 as stated fails: the route checks the ownership of the target search space before it
  looks at the connector. A caller who owns Slack connector 1 and triggers it for search
  space 99, which does not exist, gets status 404 and nothing is dispatched.
\<close>

theorem trigger_foreign_space_counterexample:
  "check_ownership (connectors sample_db) conn_id conn_user_id 1 7 = Inr slack_row \<and>
   connector_type slack_row = SLACK_CONNECTOR \<and>
   index_connector_content 1 99 sample_db 7 t_later (Some []) =
     (Inl (HTTPException 404 ''Item not found or not owned by the user''), sample_db, Some [])"
  by (simp add: index_connector_content_def index_connector_content_try_def check_ownership_def
      sample_db_def slack_row_def space_row_def)

text \<open>
  C7 (amended). For a Slack or Notion connector owned by the caller, a search space owned
  by the caller and a checkpoint that is null or not on the current calendar day, the
  trigger with a background-task facility appends one task (the Slack or the Notion run,
  with the two ids) to the facility, leaves the database as it is (the run is not
  executed by the call) and returns a success response whose \<^verbatim>\<open>indexing_from\<close> is the
  window start ("365 days ago" for a null checkpoint, else the date of the checkpoint) and
  whose \<^verbatim>\<open>indexing_to\<close> is the current date.
\<close>

theorem trigger_dispatches_with_window:
  assumes own_c: "check_ownership (connectors s) conn_id conn_user_id cid user = Inr c"
    and own_sp: "check_ownership (searchspaces s) space_id space_user_id sid user = Inr sp"
    and ty: "connector_type c = SLACK_CONNECTOR \<or> connector_type c = NOTION_CONNECTOR"
    and day: "\<forall>t. last_indexed_at c = Some t \<longrightarrow> date_of t \<noteq> date_of now"
  shows "\<exists>resp. index_connector_content cid sid s user now (Some tasks) =
           (Inr resp, s,
            Some (tasks @ [if connector_type c = SLACK_CONNECTOR
                           then run_slack_indexing_task cid sid
                           else run_notion_indexing_task cid sid])) \<and>
         map_of resp ''success'' = Some (JBool True) \<and>
         map_of resp ''indexing_from'' =
           Some (JStr (case last_indexed_at c of None \<Rightarrow> ''365 days ago''
                       | Some t \<Rightarrow> strftime_ymd (date_of t))) \<and>
         map_of resp ''indexing_to'' = Some (JStr (strftime_ymd (date_of now)))"
proof -
  let ?start = "case last_indexed_at c of None \<Rightarrow> ''365 days ago''
                | Some t \<Rightarrow> strftime_ymd (date_of t)"
  have start: "start_date_of c now = Inr ?start"
  proof (cases "last_indexed_at c")
    case None
    then show ?thesis by (simp add: start_date_never_indexed)
  next
    case (Some t)
    with day have "date_of t \<noteq> date_of now" by simp
    with Some show ?thesis by (simp add: start_date_other_day)
  qed
  show ?thesis
    using trigger_try_supported [OF own_c own_sp ty start, of tasks]
    by (simp add: index_connector_content_def)
qed

theorem trigger_dispatches_with_window_witness:
  "check_ownership (connectors two_connectors_db) conn_id conn_user_id 2 7 = Inr notion_row \<and>
   check_ownership (searchspaces two_connectors_db) space_id space_user_id 1 7 = Inr space_row \<and>
   connector_type notion_row = NOTION_CONNECTOR \<and>
   last_indexed_at notion_row = Some t_march \<and> date_of t_march \<noteq> date_of t_later \<and>
   (\<exists>resp. index_connector_content 2 1 two_connectors_db 7 t_later (Some []) =
           (Inr resp, two_connectors_db, Some [run_notion_indexing_task 2 1]) \<and>
         map_of resp ''success'' = Some (JBool True) \<and>
         map_of resp ''indexing_from'' = Some (JStr ''2025-03-07'') \<and>
         map_of resp ''indexing_to'' = Some (JStr ''2025-04-10''))"
proof -
  have own_c: "check_ownership (connectors two_connectors_db) conn_id conn_user_id 2 7 = Inr notion_row"
    by (simp add: check_ownership_def two_connectors_db_def slack_row_def notion_row_def)
  have own_sp: "check_ownership (searchspaces two_connectors_db) space_id space_user_id 1 7 = Inr space_row"
    by (simp add: check_ownership_def two_connectors_db_def space_row_def)
  have ty: "connector_type notion_row = SLACK_CONNECTOR \<or> connector_type notion_row = NOTION_CONNECTOR"
    by (simp add: notion_row_def)
  have li: "last_indexed_at notion_row = Some t_march"
    by (simp add: notion_row_def)
  have ne: "date_of t_march \<noteq> date_of t_later"
    by (simp add: date_of_def t_march_def t_later_def)
  have day: "\<forall>t. last_indexed_at notion_row = Some t \<longrightarrow> date_of t \<noteq> date_of t_later"
    using li ne by simp
  have d1: "date_of t_march = (2025, 3, 7)" by (simp add: date_of_def t_march_def)
  have d2: "date_of t_later = (2025, 4, 10)" by (simp add: date_of_def t_later_def)
  have ty': "connector_type notion_row = NOTION_CONNECTOR" by (simp add: notion_row_def)
  show ?thesis
    using trigger_dispatches_with_window [OF own_c own_sp ty day, of "[]"]
      own_c own_sp li ne ty'
    by (simp add: d1 d2 strftime_march strftime_april)
qed

text \<open>
  C8 as stated fails for the same reason: the status is 400 only when both ownership checks
  pass. The caller owns GitHub connector 3 and names search space 99, which does not
  exist: the status is 404.
\<close>

theorem unsupported_type_foreign_space_counterexample:
  "check_ownership (connectors github_db) conn_id conn_user_id 3 7 = Inr github_row \<and>
   connector_type github_row = GITHUB_CONNECTOR \<and>
   index_connector_content 3 99 github_db 7 t_later (Some []) =
     (Inl (HTTPException 404 ''Item not found or not owned by the user''), github_db, Some [])"
  by (simp add: index_connector_content_def index_connector_content_try_def check_ownership_def
      github_db_def github_row_def space_row_def)

text \<open>
  C8 (amended). For a connector owned by the caller whose type is neither
  \<^verbatim>\<open>SLACK_CONNECTOR\<close> nor \<^verbatim>\<open>NOTION_CONNECTOR\<close>, the trigger fails, adds no task to the
  facility and leaves the database (the checkpoint included) as it is; when the caller
  owns the search space as well, the failure has status 400.
\<close>

theorem unsupported_type_rejected:
  assumes own_c: "check_ownership (connectors s) conn_id conn_user_id cid user = Inr c"
    and ty: "connector_type c \<noteq> SLACK_CONNECTOR \<and> connector_type c \<noteq> NOTION_CONNECTOR"
  shows "(\<exists>st detail. index_connector_content cid sid s user now background_tasks =
            (Inl (HTTPException st detail), s, background_tasks)) \<and>
         (\<forall>sp. check_ownership (searchspaces s) space_id space_user_id sid user = Inr sp \<longrightarrow>
            (\<exists>detail. index_connector_content cid sid s user now background_tasks =
               (Inl (HTTPException 400 detail), s, background_tasks)))"
proof (cases "check_ownership (searchspaces s) space_id space_user_id sid user")
  case (Inl e)
  then obtain st detail where "e = HTTPException st detail"
    by (auto simp: check_ownership_def split: option.splits)
  with Inl own_c show ?thesis
    by (simp add: index_connector_content_def index_connector_content_try_def)
next
  case (Inr sp)
  with own_c ty show ?thesis
    by (simp add: index_connector_content_def index_connector_content_try_def)
qed

theorem unsupported_type_rejected_witness:
  "check_ownership (connectors github_db) conn_id conn_user_id 3 7 = Inr github_row \<and>
   connector_type github_row \<noteq> SLACK_CONNECTOR \<and> connector_type github_row \<noteq> NOTION_CONNECTOR \<and>
   check_ownership (searchspaces github_db) space_id space_user_id 1 7 = Inr space_row \<and>
   (\<exists>detail. index_connector_content 3 1 github_db 7 t_later (Some []) =
      (Inl (HTTPException 400 detail), github_db, Some []))"
proof -
  have own_c: "check_ownership (connectors github_db) conn_id conn_user_id 3 7 = Inr github_row"
    by (simp add: check_ownership_def github_db_def github_row_def)
  have ty: "connector_type github_row \<noteq> SLACK_CONNECTOR \<and> connector_type github_row \<noteq> NOTION_CONNECTOR"
    by (simp add: github_row_def)
  have own_sp: "check_ownership (searchspaces github_db) space_id space_user_id 1 7 = Inr space_row"
    by (simp add: check_ownership_def github_db_def space_row_def)
  show ?thesis
    using unsupported_type_rejected [OF own_c ty, of 1 t_later "Some []"] own_c ty own_sp
    by simp
qed

section \<open>Document routes\<close>

text \<open>
  C9 as stated fails: the ownership check of the search space comes first. A request of
  type \<^verbatim>\<open>FILE\<close> for search space 99, which the caller does not own, ends in status 404.
\<close>

theorem invalid_type_foreign_space_counterexample:
  "req_document_type (file_request\<lparr>req_search_space_id := 99\<rparr>) = FILE \<and>
   create_documents (file_request\<lparr>req_search_space_id := 99\<rparr>) library_db 7 [] =
     (Inl (HTTPException 404 ''Item not found or not owned by the user''), library_db, [])"
  by (simp add: create_documents_def create_documents_try_def check_ownership_def
      file_request_def library_db_def space_row_def)

text \<open>
  C9 (amended). A create-documents request for a search space owned by the caller whose
  \<^verbatim>\<open>document_type\<close> is neither \<^verbatim>\<open>EXTENSION\<close> nor \<^verbatim>\<open>CRAWLED_URL\<close> fails with status
  400 "Invalid document type"; it schedules no task and leaves the database as it is.
\<close>

theorem invalid_document_type_rejected:
  assumes own: "check_ownership (searchspaces s) space_id space_user_id (req_search_space_id request) user
                  = Inr sp"
    and ty: "req_document_type request \<noteq> EXTENSION \<and> req_document_type request \<noteq> CRAWLED_URL"
  shows "create_documents request s user tasks =
           (Inl (HTTPException 400 ''Invalid document type''), s, tasks)"
  using assms by (simp add: create_documents_def create_documents_try_def)

theorem invalid_document_type_rejected_witness:
  "check_ownership (searchspaces library_db) space_id space_user_id (req_search_space_id file_request) 7
     = Inr space_row \<and>
   req_document_type file_request \<noteq> EXTENSION \<and> req_document_type file_request \<noteq> CRAWLED_URL \<and>
   create_documents file_request library_db 7 [] =
     (Inl (HTTPException 400 ''Invalid document type''), library_db, [])"
proof -
  have own: "check_ownership (searchspaces library_db) space_id space_user_id
               (req_search_space_id file_request) 7 = Inr space_row"
    by (simp add: check_ownership_def library_db_def space_row_def file_request_def)
  have ty: "req_document_type file_request \<noteq> EXTENSION \<and> req_document_type file_request \<noteq> CRAWLED_URL"
    by (simp add: file_request_def)
  show ?thesis
    using invalid_document_type_rejected [OF own ty, of "[]"] own ty by simp
qed

lemma owned_document_None_iff:
  assumes "in_int32 document_id"
  shows "owned_document s document_id user = Inr None \<longleftrightarrow>
     \<not> (\<exists>d \<in> set (documents s). doc_id d = document_id \<and>
          (\<exists>sp \<in> set (searchspaces s). space_id sp = doc_search_space_id d \<and> space_user_id sp = user))"
  using assms by (auto simp: owned_document_def find_None_iff list_ex_iff)

lemma out_of_range_document_is_500:
  assumes "\<not> in_int32 document_id"
  shows "read_document document_id s user =
           Inl (HTTPException 500 (''Failed to fetch document: '' @ exn_str (out_of_int32 document_id))) \<and>
         update_document dimension document_id document_update s user =
           (Inl (HTTPException 500 (''Failed to update document: '' @ exn_str (out_of_int32 document_id))), s) \<and>
         delete_document document_id s user =
           (Inl (HTTPException 500 (''Failed to delete document: '' @ exn_str (out_of_int32 document_id))), s)"
  using assms
  by (simp add: read_document_def read_document_try_def update_document_def
      update_document_try_def delete_document_def delete_document_try_def owned_document_def
      out_of_int32_def)

text \<open>
  C10 as stated fails for an id that the key column cannot hold. No document has the id
  2147483648; the query for it is refused by the driver, the session raises, and the PUT
  and the DELETE routes answer through their generic handler with status 500, not 404.
\<close>

theorem missing_document_out_of_range_counterexample:
  "documents library_db = [doc_row] \<and> doc_id doc_row \<noteq> 2147483648 \<and>
   update_document 2 2147483648 rename_document library_db 7 =
     (Inl (HTTPException 500
            (''Failed to update document: '' @ exn_str (out_of_int32 2147483648))), library_db) \<and>
   delete_document 2147483648 library_db 7 =
     (Inl (HTTPException 500
            (''Failed to delete document: '' @ exn_str (out_of_int32 2147483648))), library_db)"
  by (simp add: update_document_def update_document_try_def delete_document_def
      delete_document_try_def owned_document_def in_int32_def out_of_int32_def
      library_db_def doc_row_def)

text \<open>
  C10 (amended). For a document id within the range of the 32-bit key: when no stored
  document has that id and a search space of the caller, the GET route ends in status 500
  (its only handler catches the 404 it raised itself and wraps it), while the PUT and the
  DELETE routes end in status 404 and write nothing.
\<close>

theorem missing_document_statuses:
  assumes "in_int32 document_id"
    and "\<not> (\<exists>d \<in> set (documents s). doc_id d = document_id \<and>
          (\<exists>sp \<in> set (searchspaces s). space_id sp = doc_search_space_id d \<and> space_user_id sp = user))"
  shows "read_document document_id s user =
           Inl (HTTPException 500
                  (''Failed to fetch document: '' @ exn_str (document_not_found document_id))) \<and>
         update_document dimension document_id document_update s user =
           (Inl (document_not_found document_id), s) \<and>
         delete_document document_id s user = (Inl (document_not_found document_id), s) \<and>
         status_code (document_not_found document_id) = 404"
proof -
  have none: "owned_document s document_id user = Inr None"
    using assms by (simp only: owned_document_None_iff not_False_eq_True)
  show ?thesis
    using none
    by (simp add: read_document_def read_document_try_def update_document_def
        update_document_try_def delete_document_def delete_document_try_def document_not_found_def)
qed

theorem missing_document_statuses_witness:
  "in_int32 5 \<and>
   \<not> (\<exists>d \<in> set (documents library_db). doc_id d = 5 \<and>
          (\<exists>sp \<in> set (searchspaces library_db). space_id sp = doc_search_space_id d \<and> space_user_id sp = 8)) \<and>
   read_document 5 library_db 8 =
     Inl (HTTPException 500 ''Failed to fetch document: 404: Document with id 5 not found'') \<and>
   update_document 2 5 rename_document library_db 8 =
     (Inl (HTTPException 404 ''Document with id 5 not found''), library_db) \<and>
   delete_document 5 library_db 8 =
     (Inl (HTTPException 404 ''Document with id 5 not found''), library_db)"
proof -
  have r: "in_int32 5" by (simp add: in_int32_def)
  have h: "\<not> (\<exists>d \<in> set (documents library_db). doc_id d = 5 \<and>
          (\<exists>sp \<in> set (searchspaces library_db). space_id sp = doc_search_space_id d \<and> space_user_id sp = 8))"
    by (simp add: library_db_def doc_row_def space_row_def)
  have five: "str_int 5 = ''5''" by code_simp
  have code: "str_nat 404 = ''404''" by code_simp
  show ?thesis
    using missing_document_statuses [OF r h, of 2 rename_document] r h
    by (simp add: document_not_found_def five code)
qed

section \<open>Cascade on deleting a search space\<close>

lemma fold_delete_document_row:
  "documents (fold delete_document_row ds s) =
     filter (\<lambda>x. doc_id x \<notin> doc_id ` set ds) (documents s) \<and>
   chunks (fold delete_document_row ds s) =
     filter (\<lambda>c. chunk_document_id c \<notin> doc_id ` set ds) (chunks s) \<and>
   podcasts (fold delete_document_row ds s) = podcasts s \<and>
   chats (fold delete_document_row ds s) = chats s \<and>
   searchspaces (fold delete_document_row ds s) = searchspaces s \<and>
   connectors (fold delete_document_row ds s) = connectors s"
proof (induction ds arbitrary: s)
  case Nil
  then show ?case by simp
next
  case (Cons d ds)
  have docs: "filter (\<lambda>x. doc_id x \<notin> doc_id ` set ds) (filter (\<lambda>x. doc_id x \<noteq> doc_id d) (documents s)) =
              filter (\<lambda>x. doc_id x \<notin> doc_id ` set (d # ds)) (documents s)"
    by (induction "documents s") auto
  have chs: "filter (\<lambda>c. chunk_document_id c \<notin> doc_id ` set ds)
               (filter (\<lambda>c. chunk_document_id c \<noteq> doc_id d) (chunks s)) =
             filter (\<lambda>c. chunk_document_id c \<notin> doc_id ` set (d # ds)) (chunks s)"
    by (induction "chunks s") auto
  show ?case
    using Cons.IH [of "delete_document_row d s"] docs chs
    by (simp add: delete_document_row_def)
qed

lemma delete_search_space_row_tables:
  "documents (delete_search_space_row sp s) =
     filter (\<lambda>x. doc_id x \<notin> doc_id ` {d \<in> set (documents s). doc_search_space_id d = space_id sp})
       (documents s) \<and>
   chunks (delete_search_space_row sp s) =
     filter (\<lambda>c. chunk_document_id c \<notin>
                  doc_id ` {d \<in> set (documents s). doc_search_space_id d = space_id sp})
       (chunks s) \<and>
   podcasts (delete_search_space_row sp s) =
     filter (\<lambda>p. podcast_search_space_id p \<noteq> space_id sp) (podcasts s) \<and>
   chats (delete_search_space_row sp s) =
     filter (\<lambda>c. chat_search_space_id c \<noteq> space_id sp) (chats s) \<and>
   searchspaces (delete_search_space_row sp s) =
     filter (\<lambda>x. space_id x \<noteq> space_id sp) (searchspaces s)"
  using fold_delete_document_row
    [of "filter (\<lambda>d. doc_search_space_id d = space_id sp) (documents s)" s]
  by (simp add: delete_search_space_row_def Let_def)

lemma check_ownership_Inr_D:
  "check_ownership rows get_id get_user item_id user = Inr r \<Longrightarrow>
     r \<in> set rows \<and> get_id r = item_id \<and> get_user r = user"
  by (auto simp: check_ownership_def split: option.splits dest: find_Some_D)

text \<open>
  C5. After the owner has deleted a search space, the database holds no document, no
  podcast and no chat of that search space, no chunk whose document was a document of that
  search space, and not the search space itself.
\<close>

theorem delete_search_space_cascades:
  assumes own: "check_ownership (searchspaces s) space_id space_user_id search_space_id user = Inr sp"
  shows "(\<forall>d \<in> set (documents (snd (delete_search_space search_space_id s user))).
            doc_search_space_id d \<noteq> search_space_id) \<and>
         (\<forall>c \<in> set (chunks (snd (delete_search_space search_space_id s user))).
            \<forall>d \<in> set (documents s).
              doc_id d = chunk_document_id c \<longrightarrow> doc_search_space_id d \<noteq> search_space_id) \<and>
         (\<forall>p \<in> set (podcasts (snd (delete_search_space search_space_id s user))).
            podcast_search_space_id p \<noteq> search_space_id) \<and>
         (\<forall>c \<in> set (chats (snd (delete_search_space search_space_id s user))).
            chat_search_space_id c \<noteq> search_space_id) \<and>
         (\<forall>x \<in> set (searchspaces (snd (delete_search_space search_space_id s user))).
            space_id x \<noteq> search_space_id)"
proof -
  have sid: "space_id sp = search_space_id"
    using check_ownership_Inr_D [OF own] by simp
  have after: "snd (delete_search_space search_space_id s user) = delete_search_space_row sp s"
    using own by (simp add: delete_search_space_def)
  note tables = delete_search_space_row_tables [of sp s]
  have docs: "\<forall>d \<in> set (documents (delete_search_space_row sp s)). doc_search_space_id d \<noteq> search_space_id"
    using tables sid by auto
  have chs: "\<forall>c \<in> set (chunks (delete_search_space_row sp s)). \<forall>d \<in> set (documents s).
               doc_id d = chunk_document_id c \<longrightarrow> doc_search_space_id d \<noteq> search_space_id"
  proof (intro ballI impI)
    fix c d
    assume c: "c \<in> set (chunks (delete_search_space_row sp s))"
      and d: "d \<in> set (documents s)" and same: "doc_id d = chunk_document_id c"
    from c tables have "chunk_document_id c \<notin>
        doc_id ` {d \<in> set (documents s). doc_search_space_id d = space_id sp}"
      by simp
    with d same have "doc_search_space_id d \<noteq> space_id sp" by force
    with sid show "doc_search_space_id d \<noteq> search_space_id" by simp
  qed
  have pods: "\<forall>p \<in> set (podcasts (delete_search_space_row sp s)). podcast_search_space_id p \<noteq> search_space_id"
    using tables sid by auto
  have chts: "\<forall>c \<in> set (chats (delete_search_space_row sp s)). chat_search_space_id c \<noteq> search_space_id"
    using tables sid by auto
  have sps: "\<forall>x \<in> set (searchspaces (delete_search_space_row sp s)). space_id x \<noteq> search_space_id"
    using tables sid by auto
  show ?thesis
    unfolding after using docs chs pods chts sps by blast
qed

theorem delete_search_space_cascades_witness:
  "check_ownership (searchspaces library_db) space_id space_user_id 1 7 = Inr space_row \<and>
   doc_row \<in> set (documents library_db) \<and> doc_search_space_id doc_row = 1 \<and>
   chunk_row \<in> set (chunks library_db) \<and> chunk_document_id chunk_row = doc_id doc_row \<and>
   podcast_row \<in> set (podcasts library_db) \<and> chat_row \<in> set (chats library_db) \<and>
   snd (delete_search_space 1 library_db 7) = empty_db"
proof -
  have own: "check_ownership (searchspaces library_db) space_id space_user_id 1 7 = Inr space_row"
    by (simp add: check_ownership_def library_db_def space_row_def)
  have rows: "doc_row \<in> set (documents library_db) \<and> doc_search_space_id doc_row = 1 \<and>
      chunk_row \<in> set (chunks library_db) \<and> chunk_document_id chunk_row = doc_id doc_row \<and>
      podcast_row \<in> set (podcasts library_db) \<and> chat_row \<in> set (chats library_db)"
    by (simp add: library_db_def doc_row_def chunk_row_def)
  have gone: "snd (delete_search_space 1 library_db 7) = empty_db"
    using own
    by (simp add: delete_search_space_def delete_search_space_row_def delete_document_row_def
        library_db_def empty_db_def doc_row_def chunk_row_def podcast_row_def chat_row_def
        space_row_def)
  show ?thesis
    using delete_search_space_cascades [OF own] own rows gone by simp
qed

section \<open>Embedding dimensions\<close>

lemma update_first_set:
  "set (update_first P f xs) \<subseteq> set xs \<union> f ` {x \<in> set xs. P x}"
  by (induction xs) auto

lemma create_keeps_dimensions:
  assumes "embedding_dimensions_ok n s"
  shows "embedding_dimensions_ok n
           (snd (createDocumentWithChunks n embed_text s now sid ty title content metadata chunkTexts))"
proof (cases "embed_text content")
  case None
  with assms show ?thesis by (simp add: createDocumentWithChunks_def)
next
  case (Some dv)
  show ?thesis
  proof (cases "those (map embed_text chunkTexts)")
    case None
    with Some assms show ?thesis by (simp add: createDocumentWithChunks_def)
  next
    case cvs: (Some cvs)
    show ?thesis
      using Some cvs assms
      by (auto simp: createDocumentWithChunks_def Let_def embedding_dimensions_ok_def
          document_accepted_def chunk_accepted_def list_all_iff)
  qed
qed

lemma update_document_keeps_dimensions:
  assumes "embedding_dimensions_ok n s"
  shows "embedding_dimensions_ok n (snd (update_document n document_id document_update s user))"
proof (cases "owned_document s document_id user")
  case (Inl e)
  with assms show ?thesis
    by (cases e) (simp_all add: update_document_def update_document_try_def)
next
  case (Inr found)
  show ?thesis
  proof (cases found)
    case None
    with Inr assms show ?thesis
      by (simp add: update_document_def update_document_try_def document_not_found_def)
  next
    case (Some db_document)
    show ?thesis
    proof (cases "document_accepted n s (document_update db_document)")
      case False
      with Inr Some assms show ?thesis
        by (simp add: update_document_def update_document_try_def row_refused_def)
    next
      case True
      then have new: "has_dimension n (doc_embedding (document_update db_document))"
        by (simp add: document_accepted_def)
      have after: "snd (update_document n document_id document_update s user) =
          s\<lparr>documents := update_first (\<lambda>d. d = db_document) document_update (documents s)\<rparr>"
        using Inr Some True by (simp add: update_document_def update_document_try_def)
      have "has_dimension n (doc_embedding d)"
        if "d \<in> set (update_first (\<lambda>d. d = db_document) document_update (documents s))" for d
      proof -
        from that update_first_set [of "\<lambda>d. d = db_document" document_update "documents s"]
        have "d \<in> set (documents s) \<or> d = document_update db_document" by auto
        with new assms show ?thesis
          by (auto simp: embedding_dimensions_ok_def list_all_iff)
      qed
      with assms show ?thesis
        unfolding after by (simp add: embedding_dimensions_ok_def list_all_iff)
    qed
  qed
qed

lemma delete_document_keeps_dimensions:
  assumes "embedding_dimensions_ok n s"
  shows "embedding_dimensions_ok n (snd (delete_document document_id s user))"
proof (cases "owned_document s document_id user")
  case (Inl e)
  with assms show ?thesis
    by (cases e) (simp_all add: delete_document_def delete_document_try_def)
next
  case (Inr found)
  with assms show ?thesis
    by (cases found)
      (auto simp: delete_document_def delete_document_try_def delete_document_row_def
        document_not_found_def embedding_dimensions_ok_def list_all_iff)
qed

lemma delete_search_space_keeps_dimensions:
  assumes "embedding_dimensions_ok n s"
  shows "embedding_dimensions_ok n (snd (delete_search_space search_space_id s user))"
proof (cases "check_ownership (searchspaces s) space_id space_user_id search_space_id user")
  case (Inl e)
  with assms show ?thesis by (simp add: delete_search_space_def)
next
  case (Inr sp)
  then have "snd (delete_search_space search_space_id s user) = delete_search_space_row sp s"
    by (simp add: delete_search_space_def)
  with assms delete_search_space_row_tables [of sp s] show ?thesis
    by (auto simp: embedding_dimensions_ok_def list_all_iff)
qed

lemma create_search_space_keeps_dimensions:
  "embedding_dimensions_ok n s \<Longrightarrow>
     embedding_dimensions_ok n (snd (create_search_space name description s user now))"
  by (simp add: create_search_space_def Let_def embedding_dimensions_ok_def)

lemma apply_store_op_keeps_dimensions:
  "embedding_dimensions_ok n s \<Longrightarrow> embedding_dimensions_ok n (apply_store_op n embed_text op s)"
  by (cases op)
    (simp_all add: create_keeps_dimensions update_document_keeps_dimensions
      delete_document_keeps_dimensions delete_search_space_keeps_dimensions
      create_search_space_keeps_dimensions)

lemma history_keeps_dimensions:
  "embedding_dimensions_ok n s \<Longrightarrow> embedding_dimensions_ok n (fold (apply_store_op n embed_text) ops s)"
  by (induction ops arbitrary: s) (simp_all add: apply_store_op_keeps_dimensions)

lemma empty_db_dimensions: "embedding_dimensions_ok n empty_db"
  by (simp add: embedding_dimensions_ok_def empty_db_def)

text \<open>
  An update that would store an embedding of another dimension is refused by the column
  at the commit: the route answers 500 and the stored row is the one before.
\<close>

lemma update_wrong_dimension_refused:
  "update_document 2 5 shrink_embedding library_db 7 =
     (Inl (HTTPException 500 (''Failed to update document: '' @ exn_str row_refused)), library_db)"
  by (simp add: update_document_def update_document_try_def owned_document_def in_int32_def
      document_accepted_def has_dimension_def shrink_embedding_def row_refused_def
      library_db_def doc_row_def space_row_def)

text \<open>
  C6. Under one configured dimension, take a database in which every stored embedding
  has that dimension (the empty database is one) and any history of the operations that
  write documents and chunks: creating and deleting a search space, ingesting a document
  with its chunks, updating a document, deleting a document. In the database it leaves,
  the embedding of every stored document and of every stored chunk has the configured
  dimension; so the embedding of a chunk and the embedding of a document have the same
  dimension.
\<close>

theorem stored_embeddings_have_configured_dimension:
  assumes start: "embedding_dimensions_ok n s0"
    and s: "s = fold (apply_store_op n embed_text) ops s0"
  shows "(\<forall>d \<in> set (documents s). \<forall>v. doc_embedding d = Some v \<longrightarrow> length v = n) \<and>
         (\<forall>c \<in> set (chunks s). \<forall>w. chunk_embedding c = Some w \<longrightarrow> length w = n) \<and>
         (\<forall>d \<in> set (documents s). \<forall>c \<in> set (chunks s). \<forall>v w.
            doc_embedding d = Some v \<and> chunk_embedding c = Some w \<longrightarrow> length w = length v)"
proof -
  have "embedding_dimensions_ok n s"
    unfolding s using start by (rule history_keeps_dimensions)
  then have docs: "\<forall>d \<in> set (documents s). \<forall>v. doc_embedding d = Some v \<longrightarrow> length v = n"
    and chs: "\<forall>c \<in> set (chunks s). \<forall>w. chunk_embedding c = Some w \<longrightarrow> length w = n"
    by (fastforce simp: embedding_dimensions_ok_def list_all_iff has_dimension_def)+
  from docs chs show ?thesis by simp
qed

theorem stored_embeddings_have_configured_dimension_witness:
  "embedding_dimensions_ok 2 empty_db \<and>
   memo_document \<in> set (documents (fold (apply_store_op 2 unit_embed) memo_history empty_db)) \<and>
   doc_embedding memo_document = Some [3, 1] \<and>
   memo_chunk \<in> set (chunks (fold (apply_store_op 2 unit_embed) memo_history empty_db)) \<and>
   chunk_embedding memo_chunk = Some [2, 1] \<and>
   length [3, 1 :: real] = 2 \<and> length [2, 1 :: real] = length [3, 1 :: real]"
proof -
  have upt2: "[0 ..< 2] = [0, Suc 0]" by (simp add: upt_rec)
  have built: "fold (apply_store_op 2 unit_embed) memo_history empty_db =
      \<lparr>chats = [], documents = [memo_document],
         chunks = [memo_chunk\<lparr>chunk_id := 1, chunk_content := ''a'', chunk_embedding := Some [1, 1]\<rparr>,
                   memo_chunk],
         podcasts = [],
         searchspaces = [space_row],
         connectors = []\<rparr>"
    by (simp add: memo_history_def create_search_space_def createDocumentWithChunks_def
        update_document_def update_document_try_def owned_document_def in_int32_def
        document_accepted_def chunk_accepted_def has_dimension_def
        shrink_embedding_def rename_document_def row_refused_def
        unit_embed_def empty_db_def next_id_def new_chunks_def memo_document_def memo_chunk_def
        space_row_def upt2 Let_def)
  have d: "memo_document \<in> set (documents (fold (apply_store_op 2 unit_embed) memo_history empty_db))"
    and c: "memo_chunk \<in> set (chunks (fold (apply_store_op 2 unit_embed) memo_history empty_db))"
    by (simp_all add: built)
  have de: "doc_embedding memo_document = Some [3, 1]" by (simp add: memo_document_def)
  have ce: "chunk_embedding memo_chunk = Some [2, 1]" by (simp add: memo_chunk_def)
  show ?thesis
    using stored_embeddings_have_configured_dimension
      [OF empty_db_dimensions refl, of 2 unit_embed memo_history] empty_db_dimensions [of 2] d c de ce
    by simp
qed

end
